theory Spec2Isabelle
  imports Complex_Main
begin

section \<open>The calculation engine of calc-demo, embedded in HOL\<close>

text \<open>
  The engine is a set of pure TypeScript functions on \<^verbatim>\<open>number\<close>. A \<^verbatim>\<open>number\<close> is
  modelled as a \<^typ>\<open>real\<close>: the theory is about the formulas the code evaluates, not about
  the rounding of IEEE doubles. The JavaScript library functions are read as follows.
  \<^item> \<^verbatim>\<open>Math.log\<close> is \<^const>\<open>ln\<close>; every call site that is reached has a positive argument.
  \<^item> \<^verbatim>\<open>Math.pow(x, y)\<close> with a literal exponent 3 or 4 is \<open>x ^ 3\<close>, \<open>x ^ 4\<close>; with a
    fractional literal exponent it is \<open>x powr y\<close>, and every such call site has a positive
    base (a temperature difference floored at 1, or a ratio of positive diameters).
  \<^item> \<^verbatim>\<open>Math.round(x)\<close> rounds half up, which is \<^const>\<open>round\<close> (\<open>\<lfloor>x + 1/2\<rfloor>\<close>);
    \<^verbatim>\<open>Math.ceil\<close> is \<^const>\<open>ceiling\<close>.
  \<^item> \<^verbatim>\<open>throw new Error(...)\<close> is a value \<open>Inl e\<close> of the type \<open>error + real\<close>; the
    constructor names the condition of the error taxonomy the message belongs to.
    \<open>TypeError\<close> is the exception the runtime itself throws.
  \<^item> A parameter object is modelled by the fields the function destructures, in the
    order of the destructuring; an optional field is an \<open>option\<close>.
  \<^item> A division of the source is the division of \<^typ>\<open>real\<close>. The two agree where the
    divisor is not zero. The divisors of the estimators and of the thickness search are
    positive on the paths that reach them; the divisors of the dew point vanish only at
    an air temperature of \<open>-243.12\<close> or at \<open>gamma = 17.62\<close>, and the statements about
    the dew point below are made where they do not.
\<close>

subsection \<open>Shared types\<close>

datatype Orientation = Horizontal | Vertical

datatype error =
    InvalidEmissivity
  | InvalidGeometry
  | InvalidCoefficient
  | InvalidHumidity
  | UnreachableTarget
  | TypeError

definition sigma :: real where
  \<comment> \<open>\<^verbatim>\<open>const sigma = 5.67e-8\<close>\<close>
  "sigma = 5.67 / 10 ^ 8"

definition round3 :: "real \<Rightarrow> real" where
  \<comment> \<open>\<^verbatim>\<open>Math.round(x * 1000) / 1000\<close>\<close>
  "round3 x = real_of_int (round (x * 1000)) / 1000"

definition ceil3 :: "real \<Rightarrow> real" where
  \<comment> \<open>\<^verbatim>\<open>Math.ceil(x * 1000) / 1000\<close>\<close>
  "ceil3 x = real_of_int \<lceil>x * 1000\<rceil> / 1000"

subsection \<open>constants.ts: the material catalog and the tube catalog\<close>

text \<open>
  A JavaScript object used as a table is an association list of its own properties. The
  keys of the \<^verbatim>\<open>lambda\<close> and \<^verbatim>\<open>wallThicknesses\<close> tables are numeric strings that the code
  only ever reads through \<^verbatim>\<open>Number\<close> and \<^verbatim>\<open>String\<close>, so a key is modelled by the number it
  denotes; these tables are read with keys taken from themselves.

  \<^verbatim>\<open>MATERIALS\<close> is read with a key that comes from the caller. The read \<^verbatim>\<open>obj[key]\<close> of an
  object literal yields the own property of that name; otherwise the property of that
  name which the object inherits from \<^verbatim>\<open>Object.prototype\<close>; otherwise \<^verbatim>\<open>undefined\<close>. The
  inherited properties are the standard methods, the constructor and the
  \<^verbatim>\<open>__proto__\<close> accessor; each of them is a function or an object, hence truthy.

  The inch mark of the \<^verbatim>\<open>inch\<close> labels of the tube catalog is left out of the strings; no
  calculation reads them.
\<close>

definition objectPrototypeProperties :: "string list" where
  "objectPrototypeProperties =
     [''constructor'', ''hasOwnProperty'', ''isPrototypeOf'', ''propertyIsEnumerable'',
      ''toLocaleString'', ''toString'', ''valueOf'', ''__proto__'',
      ''__defineGetter__'', ''__defineSetter__'', ''__lookupGetter__'', ''__lookupSetter__'']"

datatype 'a property = Undefined | Inherited | Own 'a

definition getProperty :: "(string \<times> 'a) list \<Rightarrow> string \<Rightarrow> 'a property" where
  "getProperty obj key =
     (case map_of obj key of
        Some v \<Rightarrow> Own v
      | None \<Rightarrow> (if key \<in> set objectPrototypeProperties then Inherited else Undefined))"

record MaterialData =
  lambda :: "(real \<times> real) list"
  density :: "real \<times> real"
  mu :: "real \<times> real"

definition MATERIALS :: "(string \<times> MaterialData) list" where
  "MATERIALS =
    [(''ROKAFLEX ST'',
      \<lparr> lambda = [(-20, 0.032), (0, 0.034), (20, 0.036), (40, 0.038), (60, 0.040)],
        density = (41, 60),
        mu = (2000, 8000) \<rparr>)]"

datatype TubeType = Copper | Steel

record TubeSize =
  tubeType :: TubeType
  dn :: string
  inch :: string
  mm :: real
  wallThicknesses :: "(real \<times> real) list"

definition ALL_TUBE_SIZES :: "TubeSize list" where
  "ALL_TUBE_SIZES =
   [\<lparr>tubeType = Copper, dn = ''DN8'', inch = ''1/4'', mm = 6,
      wallThicknesses = [(6, 486), (9, 342), (13, 216)]\<rparr>,
    \<lparr>tubeType = Copper, dn = ''DN8'', inch = ''5/16'', mm = 8,
      wallThicknesses = [(6, 432), (9, 306), (13, 198)]\<rparr>,
    \<lparr>tubeType = Copper, dn = ''DN10'', inch = ''3/8'', mm = 10,
      wallThicknesses = [(6, 378), (9, 270), (13, 180)]\<rparr>,
    \<lparr>tubeType = Copper, dn = ''DN15'', inch = ''1/2'', mm = 12,
      wallThicknesses = [(6, 342), (9, 234), (13, 162)]\<rparr>,
    \<lparr>tubeType = Copper, dn = ''DN15'', inch = ''5/8'', mm = 15,
      wallThicknesses = [(6, 270), (9, 198), (13, 144)]\<rparr>,
    \<lparr>tubeType = Copper, dn = ''DN20'', inch = ''3/4'', mm = 18,
      wallThicknesses = [(6, 234), (9, 180), (13, 126), (19, 72), (25, 56)]\<rparr>,
    \<lparr>tubeType = Copper, dn = ''DN20'', inch = ''7/8'', mm = 22,
      wallThicknesses = [(6, 198), (9, 162), (13, 108), (19, 72), (25, 48), (32, 32)]\<rparr>,
    \<lparr>tubeType = Copper, dn = ''DN25'', inch = ''1'', mm = 25,
      wallThicknesses = [(6, 164), (9, 134), (13, 96), (19, 66), (25, 44), (32, 28)]\<rparr>,
    \<lparr>tubeType = Copper, dn = ''DN25'', inch = ''1 1/8'', mm = 28,
      wallThicknesses = [(6, 132), (9, 108), (13, 84), (19, 60), (25, 40), (32, 24)]\<rparr>,
    \<lparr>tubeType = Copper, dn = ''DN32'', inch = ''1 3/8'', mm = 35,
      wallThicknesses = [(6, 120), (9, 96), (13, 72), (19, 48), (25, 32), (32, 24)]\<rparr>,
    \<lparr>tubeType = Copper, dn = ''DN40'', inch = ''1 5/8'', mm = 42,
      wallThicknesses = [(6, 108), (9, 88), (13, 56), (19, 40), (25, 24), (32, 22)]\<rparr>,
    \<lparr>tubeType = Steel, dn = ''DN6'', inch = ''1/8'', mm = 10.2, wallThicknesses = []\<rparr>,
    \<lparr>tubeType = Steel, dn = ''DN8'', inch = ''1/4'', mm = 13.5, wallThicknesses = []\<rparr>,
    \<lparr>tubeType = Steel, dn = ''DN10'', inch = ''3/8'', mm = 17.2, wallThicknesses = []\<rparr>,
    \<lparr>tubeType = Steel, dn = ''DN15'', inch = ''1/2'', mm = 21.3,
      wallThicknesses = [(6, 342), (9, 234), (13, 162)]\<rparr>,
    \<lparr>tubeType = Steel, dn = ''DN20'', inch = ''3/4'', mm = 26.9,
      wallThicknesses = [(6, 234), (9, 180), (13, 126), (19, 72), (25, 56)]\<rparr>,
    \<lparr>tubeType = Steel, dn = ''DN25'', inch = ''1'', mm = 33.7,
      wallThicknesses = [(6, 164), (9, 134), (13, 96), (19, 66), (25, 44), (32, 28)]\<rparr>,
    \<lparr>tubeType = Steel, dn = ''DN32'', inch = ''1 1/4'', mm = 42.4,
      wallThicknesses = [(6, 108), (9, 88), (13, 56), (19, 40), (25, 24), (32, 22)]\<rparr>,
    \<lparr>tubeType = Steel, dn = ''DN40'', inch = ''1 1/2'', mm = 48.3,
      wallThicknesses = [(9, 80), (13, 48), (19, 32), (25, 24), (32, 18)]\<rparr>,
    \<lparr>tubeType = Steel, dn = ''DN50'', inch = ''2'', mm = 60.3,
      wallThicknesses = [(9, 56), (13, 40), (19, 32), (25, 18), (32, 14)]\<rparr>,
    \<lparr>tubeType = Steel, dn = ''DN65'', inch = ''2 1/2'', mm = 76.1,
      wallThicknesses = [(9, 48), (13, 36), (19, 24), (25, 18), (32, 12)]\<rparr>,
    \<lparr>tubeType = Steel, dn = ''DN80'', inch = ''3'', mm = 88.9,
      wallThicknesses = [(9, 42), (13, 30), (19, 24), (25, 16), (32, 12)]\<rparr>,
    \<lparr>tubeType = Steel, dn = ''DN100'', inch = ''4'', mm = 114.3,
      wallThicknesses = [(9, 28), (13, 24), (19, 16), (25, 12), (32, 8)]\<rparr>]"

subsection \<open>thermal.ts: interpolateLambda\<close>

text \<open>
  The \<^verbatim>\<open>for\<close> loop over \<open>i = 0 .. temps.length - 2\<close> walks the sorted breakpoints in
  adjacent pairs and stops at the first pair that brackets \<open>temp\<close>; when no pair does, the
  initial value 0.036 is returned. \<^verbatim>\<open>lambdaData[String(t)]\<close> is the lookup of a key that was
  taken from the same table. When \<^verbatim>\<open>MATERIALS[material]\<close> is an inherited property, the test
  \<^verbatim>\<open>!materialData\<close> is false, \<^verbatim>\<open>materialData.lambda\<close> is \<^verbatim>\<open>undefined\<close> and
  \<^verbatim>\<open>Object.keys(undefined)\<close> throws a TypeError.
\<close>

fun bracketLoop :: "(real \<times> real) list \<Rightarrow> real \<Rightarrow> real list \<Rightarrow> real" where
  "bracketLoop lambdaData temp (t0 # t1 # temps) =
     (if temp \<ge> t0 \<and> temp \<le> t1 then
        (let l0 = the (map_of lambdaData t0);
             l1 = the (map_of lambdaData t1)
         in l0 + (l1 - l0) * (temp - t0) / (t1 - t0))
      else bracketLoop lambdaData temp (t1 # temps))"
| "bracketLoop lambdaData temp temps = 0.036"

definition interpolateLambda :: "real \<Rightarrow> string \<Rightarrow> error + real" where
  "interpolateLambda temp material =
     (case getProperty MATERIALS material of
        Undefined \<Rightarrow> Inr 0.036
      | Inherited \<Rightarrow> Inl TypeError
      | Own materialData \<Rightarrow>
          (let lambdaData = lambda materialData;
               temps = sort (map fst lambdaData)
           in Inr (bracketLoop lambdaData temp temps)))"

text \<open>
  The two reference temperatures at which the callers evaluate the conductivity:
  \<^verbatim>\<open>meanTemp\<close> of \<^verbatim>\<open>calculateMinimumThickness\<close> and \<^verbatim>\<open>T_lambda\<close> of \<^verbatim>\<open>calculateHeatLoss\<close>.
\<close>

definition meanTemp :: "real \<Rightarrow> real \<Rightarrow> real" where
  "meanTemp ambientTemp mediumTemp = (ambientTemp + mediumTemp) / 2"

definition T_lambda :: "real \<Rightarrow> real \<Rightarrow> real" where
  "T_lambda ambientTemp mediumTemp = ambientTemp + 0.533 * (mediumTemp - ambientTemp) + 21"

text \<open>The sorted breakpoints of a table and its adjacent pairs, to state the contract.\<close>

definition breakpoints :: "(real \<times> real) list \<Rightarrow> (real \<times> real) list" where
  "breakpoints lambdaData = sort_key fst lambdaData"

definition brackets :: "(real \<times> real) list \<Rightarrow> ((real \<times> real) \<times> (real \<times> real)) list" where
  "brackets lambdaData = zip (breakpoints lambdaData) (tl (breakpoints lambdaData))"

definition linearBetween :: "real \<times> real \<Rightarrow> real \<times> real \<Rightarrow> real \<Rightarrow> real" where
  "linearBetween p0 p1 temp =
     snd p0 + (snd p1 - snd p0) * (temp - fst p0) / (fst p1 - fst p0)"

subsection \<open>thermal/calculations.ts: the Standard estimator and the dew point\<close>

text \<open>
  \<^verbatim>\<open>calculateHCoefficient\<close> destructures \<^verbatim>\<open>T_sup, T_amb, epsilon, applySafetyFactor = true,
  T_medium\<close>. The \<^verbatim>\<open>console.warn\<close> for a temperature difference above 500 has no effect on
  the result and is left out.
\<close>

definition calculateHCoefficient ::
  "real \<Rightarrow> real \<Rightarrow> real \<Rightarrow> bool option \<Rightarrow> real option \<Rightarrow> error + real" where
  "calculateHCoefficient T_sup T_amb epsilon applySafetyFactor T_medium =
     (if epsilon < 0 \<or> epsilon > 1 then Inl InvalidEmissivity
      else
        (let T_sup_K = T_sup + 273.15;
             T_amb_K = T_amb + 273.15;
             deltaT = (case T_medium of
                         Some tm \<Rightarrow> max \<bar>tm - T_amb\<bar> 1
                       | None \<Rightarrow> max \<bar>T_sup - T_amb\<bar> 1);
             alpha_conv_raw = 1.32 * deltaT powr 0.33;
             alpha_conv = max alpha_conv_raw (1 / 0.13);
             T_sup4 = T_sup_K ^ 4;
             T_amb4 = T_amb_K ^ 4;
             deltaT_K = T_sup_K - T_amb_K;
             alpha_rad0 =
               (if \<bar>deltaT_K\<bar> < 0.01 then
                  (let T_mean = (T_sup_K + T_amb_K) / 2
                   in 4 * epsilon * sigma * T_mean ^ 3)
                else (epsilon * sigma * (T_sup4 - T_amb4)) / deltaT_K);
             alpha_rad = min alpha_rad0 6.5;
             h_raw = alpha_conv + alpha_rad;
             safetyFactor = (if (case applySafetyFactor of None \<Rightarrow> True | Some b \<Rightarrow> b)
                             then 0.75 else 1.0);
             h_final = h_raw * safetyFactor
         in Inr (round3 h_final)))"

definition calculateDewPointMagnus :: "real \<Rightarrow> real \<Rightarrow> real" where
  \<comment> \<open>\<^verbatim>\<open>calculateDewPoint({T, UR})\<close> of calculations.ts\<close>
  "calculateDewPointMagnus T UR =
     (let gamma = ln (UR / 100) + (17.62 * T) / (243.12 + T);
          T_dew = (243.12 * gamma) / (17.62 - gamma)
      in T_dew)"

subsection \<open>thermal/advanced-algorithm.ts: the AdvancedPipe and AdvancedSheet estimators\<close>

definition calculateAdvancedH ::
  "real \<Rightarrow> real \<Rightarrow> real \<Rightarrow> Orientation option \<Rightarrow> real option \<Rightarrow> real option \<Rightarrow> error + real"
  where
  "calculateAdvancedH T_amb T_medium epsilon orientation tubeDiameter insulationThickness =
     (if epsilon < 0 \<or> epsilon > 1 then Inl InvalidEmissivity
      else
        (let orient = (case orientation of None \<Rightarrow> Horizontal | Some v \<Rightarrow> v);
             deltaT_conv = max \<bar>T_medium - T_amb\<bar> 1;
             baseCoeff = (if orient = Horizontal then 1.646 else 1.8);
             power = (if orient = Horizontal then 0.33 else 0.25);
             alpha_conv_base = baseCoeff * deltaT_conv powr power;
             alpha_conv0 =
               (case (tubeDiameter, insulationThickness) of
                  (Some td, Some it) \<Rightarrow>
                    (if td > 0 \<and> it \<ge> 0 then
                       (let D_outer = (td + 2 * it) / 1000;
                            D_ref = 0.000955 * td + 0.0244;
                            diameterCorrection = (D_ref / D_outer) powr 0.474
                        in alpha_conv_base * diameterCorrection)
                     else alpha_conv_base)
                | _ \<Rightarrow> alpha_conv_base);
             alpha_conv = ceil3 alpha_conv0;
             T_mean = (T_amb + T_medium) / 2;
             T_rad = T_mean + 0.75;
             T_rad_K = T_rad + 273.15;
             alpha_rad = 4 * epsilon * sigma * T_rad_K ^ 3;
             h = alpha_conv + alpha_rad
         in Inr (round3 h)))"

definition calculateAdvancedH_Sheets :: "real \<Rightarrow> real \<Rightarrow> real \<Rightarrow> error + real" where
  "calculateAdvancedH_Sheets T_amb T_medium epsilon =
     (if epsilon < 0 \<or> epsilon > 1 then Inl InvalidEmissivity
      else
        (let deltaT_conv = max \<bar>T_medium - T_amb\<bar> 1;
             alpha_conv_raw =
               (if T_amb \<ge> 20 then 1.32 * deltaT_conv powr 0.33
                else (let convCoeff = 1.32 - 0.017 * (20 - T_amb)
                      in convCoeff * deltaT_conv powr 0.33));
             alpha_conv = max alpha_conv_raw (1 / 0.13);
             T_mean = (T_amb + T_medium) / 2;
             radCoeff = (if T_mean \<ge> 10 then 2.628 - 0.0295 * (25 - T_mean) else 1.4);
             alpha_rad = epsilon * max radCoeff 1.4;
             h_raw = alpha_conv + alpha_rad;
             h_final = h_raw * 0.75
         in Inr (round3 h_final)))"

subsection \<open>thermal/kflex-algorithm.ts: the KFlexCalibrated estimator\<close>

text \<open>
  \<open>kflexBaseCoeff\<close> is the block that assigns the local variable \<^verbatim>\<open>baseCoeff\<close>; it is a
  definition of its own so that the coefficient can be spoken about.
\<close>

definition kflexBaseCoeff :: "bool \<Rightarrow> Orientation \<Rightarrow> real \<Rightarrow> real" where
  "kflexBaseCoeff forCondensation orient deltaT =
     (if forCondensation then
        (let deltaFrom30 = deltaT - 30;
             adaptiveCoeff = (if orient = Horizontal
                              then 1.646 - 0.0057 * deltaFrom30
                              else 1.8 - 0.0063 * deltaFrom30)
         in max adaptiveCoeff (if orient = Horizontal then 1.44 else 1.58))
      else (if orient = Horizontal then 1.646 else 1.8))"

definition calculateKFlexH ::
  "real \<Rightarrow> real \<Rightarrow> real \<Rightarrow> Orientation option \<Rightarrow> real option \<Rightarrow> real option
     \<Rightarrow> bool option \<Rightarrow> error + real" where
  "calculateKFlexH T_amb T_medium epsilon orientation tubeDiameter insulationThickness
       forCondensation =
     (if epsilon < 0 \<or> epsilon > 1 then Inl InvalidEmissivity
      else
        (let orient = (case orientation of None \<Rightarrow> Horizontal | Some v \<Rightarrow> v);
             forCond = (case forCondensation of None \<Rightarrow> False | Some b \<Rightarrow> b);
             deltaT = max \<bar>T_medium - T_amb\<bar> 1;
             baseCoeff = kflexBaseCoeff forCond orient deltaT;
             power = (if orient = Horizontal then 0.33 else 0.25);
             alphaConvBase = baseCoeff * deltaT powr power;
             alphaConv =
               (case (tubeDiameter, insulationThickness) of
                  (Some td, Some it) \<Rightarrow>
                    (if td > 0 \<and> it \<ge> 0 then
                       (let D_outer = (td + 2 * it) / 1000;
                            D_ref = 0.043;
                            powerCorrection = (if forCond then 0.15 else 0.1);
                            correction = (D_ref / D_outer) powr powerCorrection
                        in alphaConvBase * correction)
                     else alphaConvBase)
                | _ \<Rightarrow> alphaConvBase);
             T_meanK = (T_amb + T_medium) / 2 + 273.15;
             alphaRad = 4 * epsilon * sigma * T_meanK ^ 3;
             h = alphaConv + alphaRad
         in Inr (round3 h)))"

subsection \<open>condensation.ts: dew point and minimum thickness\<close>

definition calculateDewPoint :: "real \<Rightarrow> real \<Rightarrow> real" where
  "calculateDewPoint temperature relativeHumidity =
     calculateDewPointMagnus temperature relativeHumidity"

text \<open>
  The body of the thickness loop up to the surface temperature it tests. The parameter
  \<open>lam\<close> is the local variable \<^verbatim>\<open>lambda\<close> of the source.
\<close>

definition surfaceTempAt :: "real \<Rightarrow> real \<Rightarrow> real \<Rightarrow> real \<Rightarrow> real \<Rightarrow> real \<Rightarrow> real" where
  "surfaceTempAt ri lam h ambientTemp mediumTemp thickness =
     (let ro = ri + thickness / 1000;
          R_ins = ln (ro / ri) / (2 * pi * lam);
          R_conv = 1 / (h * 2 * pi * ro);
          R_total = R_ins + R_conv;
          deltaT = mediumTemp - ambientTemp;
          heatFlow = deltaT / R_total;
          surfaceTemp = mediumTemp - heatFlow * R_ins
      in surfaceTemp)"

text \<open>
  \<^verbatim>\<open>for (let thickness = 0.1; thickness <= 100; thickness += 0.1)\<close>. The loop returns the
  thickness at which it leaves through \<^verbatim>\<open>return thickness\<close>, or \<open>None\<close> when it runs to its
  end. Over the reals the thicknesses visited are exactly 0.1, 0.2, ... , 100. The last
  argument counts the executions of the loop body, so that what a call has searched can
  be stated; it does not influence the value.
\<close>

function thicknessLoop ::
  "real \<Rightarrow> real \<Rightarrow> real \<Rightarrow> real \<Rightarrow> real \<Rightarrow> real \<Rightarrow> real \<Rightarrow> nat \<Rightarrow> nat \<times> real option" where
  "thicknessLoop ri lam h ambientTemp mediumTemp targetSurfaceTemp thickness n =
     (if thickness \<le> 100 then
        (if surfaceTempAt ri lam h ambientTemp mediumTemp thickness \<ge> targetSurfaceTemp
         then (Suc n, Some thickness)
         else thicknessLoop ri lam h ambientTemp mediumTemp targetSurfaceTemp
                (thickness + 0.1) (Suc n))
      else (n, None))"
  by pat_completeness auto
termination
proof (relation "measure (\<lambda>(ri, lam, h, ta, tm, tg, t, n). nat (\<lfloor>(100 - t) * 10\<rfloor> + 1))",
       goal_cases)
  case 1
  show ?case by simp
next
  case (2 ri lam h ta tm tg t n)
  have "\<lfloor>(100 - (t + 1 / 10)) * 10\<rfloor> = \<lfloor>(100 - t) * 10\<rfloor> - 1"
  proof -
    have "(100 - (t + 1 / 10)) * 10 = (100 - t) * 10 - 1" by (simp add: algebra_simps)
    then show ?thesis by (simp only: floor_diff_one)
  qed
  moreover from 2 have "0 \<le> \<lfloor>(100 - t) * 10\<rfloor>" by simp
  ultimately show ?case by simp
qed

text \<open>
  \<^verbatim>\<open>calculateMinimumThickness\<close>, together with the number of loop bodies the call
  executed. The four \<^verbatim>\<open>throw\<close> statements come first, in the order of the source; the
  messages are those of a non-positive diameter, a non-positive coefficient, a dew point
  at or above the ambient temperature, and a target surface temperature above it. An
  exception of \<open>interpolateLambda\<close> leaves the function before the loop.
\<close>

definition calculateMinimumThicknessRun ::
  "real \<Rightarrow> real \<Rightarrow> real \<Rightarrow> real \<Rightarrow> string \<Rightarrow> real \<Rightarrow> nat \<times> (error + real)" where
  "calculateMinimumThicknessRun tubeDiameter ambientTemp mediumTemp dewPoint material h =
     (if tubeDiameter \<le> 0 then (0, Inl InvalidGeometry)
      else if h \<le> 0 then (0, Inl InvalidCoefficient)
      else if dewPoint \<ge> ambientTemp then (0, Inl InvalidHumidity)
      else
        (let safetyMargin = 0.4;
             targetSurfaceTemp = dewPoint + safetyMargin
         in if targetSurfaceTemp > ambientTemp then (0, Inl UnreachableTarget)
            else
              (case interpolateLambda (meanTemp ambientTemp mediumTemp) material of
                 Inl e \<Rightarrow> (0, Inl e)
               | Inr lam \<Rightarrow>
                   (let ri = tubeDiameter / 2 / 1000
                    in case thicknessLoop ri lam h ambientTemp mediumTemp
                              targetSurfaceTemp 0.1 0 of
                         (n, Some thickness) \<Rightarrow> (n, Inr thickness)
                       | (n, None) \<Rightarrow> (n, Inr 50)))))"

definition calculateMinimumThickness ::
  "real \<Rightarrow> real \<Rightarrow> real \<Rightarrow> real \<Rightarrow> string \<Rightarrow> real \<Rightarrow> error + real" where
  "calculateMinimumThickness tubeDiameter ambientTemp mediumTemp dewPoint material h =
     snd (calculateMinimumThicknessRun tubeDiameter ambientTemp mediumTemp dewPoint material h)"

definition searchSteps :: "real \<Rightarrow> real \<Rightarrow> real \<Rightarrow> real \<Rightarrow> string \<Rightarrow> real \<Rightarrow> nat" where
  "searchSteps tubeDiameter ambientTemp mediumTemp dewPoint material h =
     fst (calculateMinimumThicknessRun tubeDiameter ambientTemp mediumTemp dewPoint material h)"

subsection \<open>CondensationCalculator: calculateCondensation\<close>

text \<open>
  The component function reads its inputs from the store and writes a result record, or
  returns early, or shows the message of a caught error. The result record carries the
  recommended thickness as a number; the source formats it into the string
  \<^verbatim>\<open>nominalThickness\<close>. \<open>None\<close> is JavaScript's \<^verbatim>\<open>undefined\<close>.

  \<^verbatim>\<open>selectedTube && selectedTube.wallThicknesses\<close> is truthy for every tube that is found,
  because an object, also the empty one, is truthy: the default ladder is used only when
  no tube has the diameter. \<^verbatim>\<open>a || b\<close> is \<open>b\<close> when \<open>a\<close> is \<^verbatim>\<open>undefined\<close> or 0.
\<close>

definition availableThicknesses :: "real \<Rightarrow> real list" where
  "availableThicknesses tubeDiameter =
     (case find (\<lambda>tube. mm tube = tubeDiameter) ALL_TUBE_SIZES of
        Some selectedTube \<Rightarrow> sort (map fst (wallThicknesses selectedTube))
      | None \<Rightarrow> [6, 9, 13, 19, 25, 32])"

definition lastElement :: "real list \<Rightarrow> real option" where
  \<comment> \<open>\<^verbatim>\<open>xs[xs.length - 1]\<close>\<close>
  "lastElement xs = (if xs = [] then None else Some (last xs))"

definition recommendedThicknessOf :: "real list \<Rightarrow> real \<Rightarrow> real option" where
  "recommendedThicknessOf available nominalThickness =
     (case find (\<lambda>t. t \<ge> nominalThickness) available of
        Some t \<Rightarrow> (if t = 0 then lastElement available else Some t)
      | None \<Rightarrow> lastElement available)"

record CondensationResults =
  dewpointTemperature :: real
  minimumThickness :: real
  recommendedThickness :: "real option"

datatype CondensationOutcome =
    Skipped
  | Alerted (alertedError: error)
  | Updated (results: CondensationResults)

definition calculateCondensation ::
  "real \<Rightarrow> real \<Rightarrow> real \<Rightarrow> string \<Rightarrow> real \<Rightarrow> real \<Rightarrow> CondensationOutcome" where
  "calculateCondensation ambientTemp mediumTemp tubeDiameter material h relativeHumidity =
     (if relativeHumidity \<le> 0 \<or> relativeHumidity > 100 \<or> h \<le> 0 then Skipped
      else
        (let dewPoint = calculateDewPoint ambientTemp relativeHumidity
         in case calculateMinimumThickness tubeDiameter ambientTemp mediumTemp dewPoint
                   material h of
              Inl e \<Rightarrow> Alerted e
            | Inr minThickness \<Rightarrow>
                (let nominalThickness = real_of_int \<lceil>minThickness * 1.2\<rceil>;
                     available = availableThicknesses tubeDiameter;
                     recommended = recommendedThicknessOf available nominalThickness
                 in Updated \<lparr> dewpointTemperature = dewPoint,
                              minimumThickness = minThickness,
                              recommendedThickness = recommended \<rparr>)))"

subsection \<open>The estimator formulas as the specification words them\<close>

text \<open>
  The specification describes the Standard and the AdvancedPipe estimators by formulas.
  They are written down here from its words, to be compared with the functions above.
  The convection floor is the constant \<open>1 / 0.13\<close>, which the specification prints to
  four decimals as 7.6923 and identifies with \<open>1 / 0.13\<close>.
\<close>

definition specDeltaT :: "real \<Rightarrow> real \<Rightarrow> real option \<Rightarrow> real" where
  "specDeltaT T_sup T_amb T_medium =
     max \<bar>case T_medium of Some tm \<Rightarrow> tm - T_amb | None \<Rightarrow> T_sup - T_amb\<bar> 1"

definition specStandardConvection :: "real \<Rightarrow> real" where
  "specStandardConvection dT = max (1.32 * dT powr 0.33) (1 / 0.13)"

definition specStandardRadiation :: "real \<Rightarrow> real \<Rightarrow> real \<Rightarrow> real" where
  "specStandardRadiation eps T_s T_a =
     (if \<bar>T_s - T_a\<bar> < 0.01 then 4 * eps * sigma * ((T_s + T_a) / 2) ^ 3
      else eps * sigma * (T_s ^ 4 - T_a ^ 4) / (T_s - T_a))"

definition specSafety :: "bool option \<Rightarrow> real" where
  "specSafety applySafetyFactor = (if applySafetyFactor = Some False then 1.0 else 0.75)"

definition specStandardH ::
  "real \<Rightarrow> real \<Rightarrow> real \<Rightarrow> bool option \<Rightarrow> real option \<Rightarrow> real" where
  "specStandardH T_sup T_amb eps applySafetyFactor T_medium =
     round3 ((specStandardConvection (specDeltaT T_sup T_amb T_medium)
              + min (specStandardRadiation eps (T_sup + 273.15) (T_amb + 273.15)) 6.5)
             * specSafety applySafetyFactor)"




section \<open>Material interpolator\<close>

text \<open>A key taken from a table is found in it: the lookups of the loop do not miss.\<close>

lemma table_lookup_defined:
  assumes "t \<in> set (sort (map fst lambdaData))"
  shows "map_of lambdaData t \<noteq> None"
  using assms by (simp add: map_of_eq_None_iff)

lemma getProperty_MATERIALS:
  "getProperty MATERIALS m =
     (if m = ''ROKAFLEX ST'' then Own (snd (hd MATERIALS))
      else if m \<in> set objectPrototypeProperties then Inherited
      else Undefined)"
  by (simp add: getProperty_def MATERIALS_def)

lemma interpolateLambda_unknown:
  assumes "m \<noteq> ''ROKAFLEX ST''" and "m \<notin> set objectPrototypeProperties"
  shows "interpolateLambda temp m = Inr 0.036"
  using assms by (simp add: interpolateLambda_def getProperty_MATERIALS)

text \<open>The loop of \<open>interpolateLambda\<close> on the one table of the catalog, unrolled.\<close>

lemma interpolateLambda_ROKAFLEX:
  "interpolateLambda temp ''ROKAFLEX ST'' =
     Inr (if -20 \<le> temp \<and> temp \<le> 0 then 0.032 + (0.034 - 0.032) * (temp - (-20)) / (0 - (-20))
          else if 0 \<le> temp \<and> temp \<le> 20 then 0.034 + (0.036 - 0.034) * (temp - 0) / (20 - 0)
          else if 20 \<le> temp \<and> temp \<le> 40 then 0.036 + (0.038 - 0.036) * (temp - 20) / (40 - 20)
          else if 40 \<le> temp \<and> temp \<le> 60 then 0.038 + (0.040 - 0.038) * (temp - 40) / (60 - 40)
          else 0.036)"
  by (simp add: interpolateLambda_def getProperty_def MATERIALS_def Let_def)

lemma interpolateLambda_total:
  assumes "m \<notin> set objectPrototypeProperties"
  shows "\<exists>l. interpolateLambda temp m = Inr l \<and> 0 < l"
proof (cases "m = ''ROKAFLEX ST''")
  case True
  then show ?thesis
    by (auto simp: interpolateLambda_ROKAFLEX) (simp_all add: field_simps)
next
  case False
  with assms have "interpolateLambda temp m = Inr 0.036"
    by (intro interpolateLambda_unknown)
  then show ?thesis by (intro exI [of _ "0.036"]) simp
qed

lemma breakpoints_ROKAFLEX:
  "breakpoints (lambda (snd (hd MATERIALS))) =
     [(-20, 0.032), (0, 0.034), (20, 0.036), (40, 0.038), (60, 0.040)]"
  by (simp add: breakpoints_def MATERIALS_def)

lemma brackets_ROKAFLEX:
  "brackets (lambda (snd (hd MATERIALS))) =
     [((-20, 0.032), (0, 0.034)), ((0, 0.034), (20, 0.036)),
      ((20, 0.036), (40, 0.038)), ((40, 0.038), (60, 0.040))]"
  by (simp add: brackets_def breakpoints_def MATERIALS_def)

text \<open>
  The contract of the interpolator for every name that is not the name of an inherited
  property: the result is a positive number; for a material of the catalog and a
  temperature between two adjacent breakpoints of the sorted table it is the linear
  interpolation between them, and at a breakpoint the value of the table; a temperature
  between the least and the greatest breakpoint lies in such a bracket; for a
  temperature in no bracket and for a name without catalog entry it is the default 0.036.
\<close>

lemma interpolateLambda_contract:
  assumes "material \<notin> set objectPrototypeProperties"
  shows "(\<exists>l. interpolateLambda temp material = Inr l \<and> 0 < l)
   \<and> (map_of MATERIALS material = None \<longrightarrow> interpolateLambda temp material = Inr 0.036)
   \<and> (\<forall>materialData. map_of MATERIALS material = Some materialData \<longrightarrow>
        (\<forall>(p0, p1) \<in> set (brackets (lambda materialData)).
            fst p0 \<le> temp \<and> temp \<le> fst p1 \<longrightarrow>
            interpolateLambda temp material = Inr (linearBetween p0 p1 temp))
      \<and> (\<forall>(t, l) \<in> set (lambda materialData). interpolateLambda t material = Inr l)
      \<and> (fst (hd (breakpoints (lambda materialData))) \<le> temp
           \<and> temp \<le> fst (last (breakpoints (lambda materialData))) \<longrightarrow>
           (\<exists>(p0, p1) \<in> set (brackets (lambda materialData)).
              fst p0 \<le> temp \<and> temp \<le> fst p1))
      \<and> ((\<forall>(p0, p1) \<in> set (brackets (lambda materialData)).
              \<not> (fst p0 \<le> temp \<and> temp \<le> fst p1)) \<longrightarrow>
           interpolateLambda temp material = Inr 0.036)
      \<and> (temp < fst (hd (breakpoints (lambda materialData)))
           \<or> fst (last (breakpoints (lambda materialData))) < temp \<longrightarrow>
           interpolateLambda temp material = Inr 0.036))"
proof (intro conjI allI impI)
  show "\<exists>l. interpolateLambda temp material = Inr l \<and> 0 < l"
    using assms by (rule interpolateLambda_total)
next
  assume "map_of MATERIALS material = None"
  with assms show "interpolateLambda temp material = Inr 0.036"
    by (simp add: interpolateLambda_def getProperty_def)
next
  fix materialData
  assume m: "map_of MATERIALS material = Some materialData"
  then have mat: "material = ''ROKAFLEX ST''" and md: "materialData = snd (hd MATERIALS)"
    by (auto simp: MATERIALS_def split: if_splits)
  show "\<forall>(p0, p1) \<in> set (brackets (lambda materialData)).
            fst p0 \<le> temp \<and> temp \<le> fst p1 \<longrightarrow>
            interpolateLambda temp material = Inr (linearBetween p0 p1 temp)"
    unfolding md brackets_ROKAFLEX mat
    by (auto simp: interpolateLambda_ROKAFLEX linearBetween_def)
  show "\<forall>(t, l) \<in> set (lambda materialData). interpolateLambda t material = Inr l"
    unfolding md mat
    by (simp add: MATERIALS_def interpolateLambda_ROKAFLEX)
  {
    assume "fst (hd (breakpoints (lambda materialData))) \<le> temp
           \<and> temp \<le> fst (last (breakpoints (lambda materialData)))"
    then show "\<exists>(p0, p1) \<in> set (brackets (lambda materialData)).
              fst p0 \<le> temp \<and> temp \<le> fst p1"
      unfolding md brackets_ROKAFLEX breakpoints_ROKAFLEX
      by auto
  }
  {
    assume "\<forall>(p0, p1) \<in> set (brackets (lambda materialData)).
              \<not> (fst p0 \<le> temp \<and> temp \<le> fst p1)"
    then show "interpolateLambda temp material = Inr 0.036"
      unfolding md brackets_ROKAFLEX mat
      by (auto simp: interpolateLambda_ROKAFLEX)
  }
  {
    assume "temp < fst (hd (breakpoints (lambda materialData)))
           \<or> fst (last (breakpoints (lambda materialData))) < temp"
    then show "interpolateLambda temp material = Inr 0.036"
      unfolding md breakpoints_ROKAFLEX mat
      by (auto simp: interpolateLambda_ROKAFLEX)
  }
qed

text \<open>
  Claim C6. The claim promises a positive number, and the default 0.036 for a name
  without catalog entry, for every material name. The name \<open>constructor\<close> has no catalog
  entry; the read \<^verbatim>\<open>MATERIALS[material]\<close> finds the inherited property, the guard
  \<^verbatim>\<open>if (!materialData)\<close> does not fire and the call ends in a TypeError.
\<close>

theorem interpolateLambda_inherited_name:
  "map_of MATERIALS ''constructor'' = None
   \<and> interpolateLambda 20 ''constructor'' = Inl TypeError"
  by (simp add: interpolateLambda_def getProperty_def MATERIALS_def
        objectPrototypeProperties_def)

text \<open>
  Claim C8, as amended. With \<open>ambientTemp = 25\<close>, \<open>mediumTemp = -5\<close> and material
  ROKAFLEX ST the heat-loss calculator derives the reference temperature
  \<open>T_lambda = 30.01\<close>, which lies between the breakpoints 20 and 40, and the conductivity
  there is the linear interpolation between (20, 0.036) and (40, 0.038), that is
  0.037001. The condensation solver derives the mean temperature 10, which lies between
  the breakpoints 0 and 20, and the conductivity there is the linear interpolation
  between (0, 0.034) and (20, 0.036), that is 0.035.
\<close>

theorem scenarioA_lambda:
  "T_lambda 25 (-5) = 30.01
   \<and> 20 \<le> T_lambda 25 (-5) \<and> T_lambda 25 (-5) \<le> 40
   \<and> interpolateLambda (T_lambda 25 (-5)) ''ROKAFLEX ST''
       = Inr (linearBetween (20, 0.036) (40, 0.038) (T_lambda 25 (-5)))
   \<and> linearBetween (20, 0.036) (40, 0.038) (T_lambda 25 (-5)) = 0.037001
   \<and> meanTemp 25 (-5) = 10
   \<and> interpolateLambda (meanTemp 25 (-5)) ''ROKAFLEX ST''
       = Inr (linearBetween (0, 0.034) (20, 0.036) (meanTemp 25 (-5)))
   \<and> linearBetween (0, 0.034) (20, 0.036) (meanTemp 25 (-5)) = 0.035"
  by (simp add: meanTemp_def T_lambda_def interpolateLambda_ROKAFLEX linearBetween_def)

text \<open>
  Counterexample to claim C8 as stated. The claim names the breakpoints 0 and 20 for the
  derived reference temperature. The reference temperature of the heat-loss calculator is not between
  these breakpoints, and the conductivity there is not between their values 0.034 and
  0.036.
\<close>

theorem scenarioA_lambda_counterexample:
  "\<not> (0 \<le> T_lambda 25 (-5) \<and> T_lambda 25 (-5) \<le> 20)
   \<and> interpolateLambda (T_lambda 25 (-5)) ''ROKAFLEX ST'' = Inr 0.037001
   \<and> \<not> ((0.034::real) \<le> 0.037001 \<and> (0.037001::real) \<le> 0.036)"
  by (simp add: T_lambda_def interpolateLambda_ROKAFLEX)


section \<open>The h-estimator family\<close>

lemma floor_constant_rendering: "\<bar>1 / 0.13 - 7.6923\<bar> < (1 / 10 ^ 5 :: real)"
  by simp

lemma ceil3_rounds_up:
  "x \<le> ceil3 x \<and> ceil3 x < x + 1 / 1000 \<and> ceil3 x * 1000 = real_of_int \<lceil>x * 1000\<rceil>"
proof -
  have "x * 1000 \<le> real_of_int \<lceil>x * 1000\<rceil>"
    and "real_of_int \<lceil>x * 1000\<rceil> < x * 1000 + 1"
    using ceiling_correct [of "x * 1000"] by linarith+
  then show ?thesis by (simp add: ceil3_def field_simps)
qed

text \<open>
  Claim C1. For an emissivity in \<open>[0, 1]\<close> the Standard estimator returns the value the
  specification's formula gives: the sum of the convection term
  \<open>max (1.32 * dT powr 0.33) (1 / 0.13)\<close>, with \<open>dT\<close> the larger of 1 and the absolute
  effective temperature difference, and of the radiation term capped at 6.5 (exact
  Stefan-Boltzmann difference form, linearized when the Kelvin temperatures differ by
  less than 0.01), times 0.75 or 1, rounded to three decimals. With \<open>T_sup = T_amb\<close> the
  call returns a value in which the radiation term is the linearized one; without a
  medium temperature the temperature difference is then the floor 1 and the convection
  term is \<open>1 / 0.13\<close>.
\<close>

theorem calculateHCoefficient_standard:
  assumes "0 \<le> epsilon" and "epsilon \<le> 1"
  shows "calculateHCoefficient T_sup T_amb epsilon applySafetyFactor T_medium
           = Inr (specStandardH T_sup T_amb epsilon applySafetyFactor T_medium)
       \<and> (T_sup = T_amb \<longrightarrow>
           calculateHCoefficient T_sup T_amb epsilon applySafetyFactor T_medium
             = Inr (round3 ((specStandardConvection (specDeltaT T_sup T_amb T_medium)
                             + min (4 * epsilon * sigma * (T_amb + 273.15) ^ 3) 6.5)
                            * specSafety applySafetyFactor)))
       \<and> (T_sup = T_amb \<and> T_medium = None \<longrightarrow>
           specDeltaT T_sup T_amb T_medium = 1
           \<and> specStandardConvection (specDeltaT T_sup T_amb T_medium) = 1 / 0.13)"
proof -
  have main: "calculateHCoefficient T_sup T_amb epsilon applySafetyFactor T_medium
           = Inr (specStandardH T_sup T_amb epsilon applySafetyFactor T_medium)"
    using assms
    by (cases applySafetyFactor; cases T_medium)
       (simp_all add: calculateHCoefficient_def specStandardH_def specDeltaT_def
          specStandardConvection_def specStandardRadiation_def specSafety_def Let_def)
  have mean: "(T_amb + 273.15 + (T_amb + 273.15)) / 2 = T_amb + 273.15"
    by simp
  have lin: "specStandardRadiation epsilon (T_amb + 273.15) (T_amb + 273.15)
               = 4 * epsilon * sigma * (T_amb + 273.15) ^ 3"
    unfolding specStandardRadiation_def mean by simp
  have floor: "specDeltaT T_amb T_amb None = 1
               \<and> specStandardConvection (specDeltaT T_amb T_amb None) = 1 / 0.13"
    by (simp add: specDeltaT_def specStandardConvection_def)
  show ?thesis
    using main lin floor by (auto simp: specStandardH_def)
qed

theorem calculateHCoefficient_standard_witness:
  "(0::real) \<le> 0.93 \<and> (0.93::real) \<le> 1
   \<and> calculateHCoefficient 25 25 0.93 None None = Inr 9.962"
  using calculateHCoefficient_standard [where epsilon = "0.93" and T_sup = 25 and T_amb = 25
          and applySafetyFactor = None and T_medium = None]
  by (simp add: specStandardH_def specDeltaT_def specStandardConvection_def
        specStandardRadiation_def specSafety_def sigma_def round3_def round_def
        power3_eq_cube)



text \<open>
  Claim C5. Each of the four estimators (Standard, KFlexCalibrated, AdvancedPipe,
  AdvancedSheet) answers an emissivity below 0 or above 1 with the error
  InvalidEmissivity, whatever the temperatures and the other parameters are; no
  coefficient is returned.
\<close>

theorem invalid_emissivity_all_modes:
  assumes "epsilon < 0 \<or> epsilon > 1"
  shows "calculateHCoefficient T_sup T_amb epsilon applySafetyFactor T_medium_opt
           = Inl InvalidEmissivity
       \<and> calculateKFlexH T_amb T_medium epsilon orientation tubeDiameter insulationThickness
           forCondensation = Inl InvalidEmissivity
       \<and> calculateAdvancedH T_amb T_medium epsilon orientation tubeDiameter insulationThickness
           = Inl InvalidEmissivity
       \<and> calculateAdvancedH_Sheets T_amb T_medium epsilon = Inl InvalidEmissivity"
  using assms
  by (auto simp: calculateHCoefficient_def calculateKFlexH_def calculateAdvancedH_def
        calculateAdvancedH_Sheets_def)

theorem invalid_emissivity_all_modes_witness:
  "((-0.1::real) < 0 \<or> (-0.1::real) > 1)
   \<and> calculateHCoefficient 40 25 (-0.1) None None = Inl InvalidEmissivity
   \<and> calculateKFlexH 25 (-5) (-0.1) None (Some 25) (Some 9) (Some True) = Inl InvalidEmissivity
   \<and> calculateAdvancedH 25 (-5) (-0.1) None (Some 25) (Some 9) = Inl InvalidEmissivity
   \<and> calculateAdvancedH_Sheets 25 (-5) (-0.1) = Inl InvalidEmissivity"
  using invalid_emissivity_all_modes [where epsilon = "-0.1" and T_sup = 40 and T_amb = 25
          and applySafetyFactor = None and T_medium_opt = None and T_medium = "-5"
          and orientation = None and tubeDiameter = "Some 25"
          and insulationThickness = "Some 9" and forCondensation = "Some True"]
  by simp


section \<open>Condensation solver: the dew point\<close>

lemma fraction_mono:
  fixes a b g1 g2 :: real
  assumes "0 < a" and "0 < b" and "g1 < g2" and "g2 < b"
  shows "a * g1 / (b - g1) < a * g2 / (b - g2)"
proof -
  have d1: "0 < b - g1" and d2: "0 < b - g2" using assms by simp_all
  have "(a * b) * g1 < (a * b) * g2"
    using assms by (intro mult_strict_left_mono) simp_all
  then have "(a * g1) * (b - g2) < (a * g2) * (b - g1)"
    by (simp add: algebra_simps)
  then have "(a * g1) * (b - g2) / ((b - g1) * (b - g2))
           < (a * g2) * (b - g1) / ((b - g1) * (b - g2))"
    using d1 d2 by (intro divide_strict_right_mono mult_pos_pos)
  moreover have "(a * g1) * (b - g2) / ((b - g1) * (b - g2)) = a * g1 / (b - g1)"
    using d2 by simp
  moreover have "(a * g2) * (b - g1) / ((b - g1) * (b - g2)) = a * g2 / (b - g2)"
    using d1 by simp
  ultimately show ?thesis by simp
qed

lemma magnus_fraction_mono:
  fixes g1 g2 :: real
  assumes "g1 < g2" and "g2 < 17.62"
  shows "243.12 * g1 / (17.62 - g1) < 243.12 * g2 / (17.62 - g2)"
  using assms by (intro fraction_mono) simp_all

lemma magnus_offset_below_pole:
  fixes T :: real
  assumes "- 243.12 < T"
  shows "17.62 * T / (243.12 + T) < 17.62"
proof -
  have "0 < 243.12 + T" using assms by simp
  then show ?thesis by (simp add: pos_divide_less_eq)
qed

lemma fraction_saturated:
  fixes a b T :: real
  assumes "a \<noteq> 0" and "b \<noteq> 0" and "a + T \<noteq> 0"
  shows "a * (b * T / (a + T)) / (b - b * T / (a + T)) = T"
proof -
  have "b - b * T / (a + T) = b * a / (a + T)"
    using assms by (simp add: field_simps)
  then have "a * (b * T / (a + T)) / (b - b * T / (a + T))
               = (a * (b * T / (a + T))) / (b * a / (a + T))" by simp
  also have "\<dots> = T" using assms by simp
  finally show ?thesis .
qed

lemma calculateDewPoint_saturated:
  assumes "T \<noteq> - 243.12"
  shows "calculateDewPoint T 100 = T"
proof -
  have nz: "243.12 + T \<noteq> 0" using assms by simp
  have "243.12 * (17.62 * T / (243.12 + T)) / (17.62 - 17.62 * T / (243.12 + T)) = T"
    using nz by (intro fraction_saturated) simp_all
  moreover have "ln (100 / 100 :: real) = 0" by simp
  ultimately show ?thesis
    by (simp only: calculateDewPoint_def calculateDewPointMagnus_def Let_def add_0)
qed

lemma calculateDewPoint_strict_mono:
  assumes "- 243.12 < T" and "0 < RH1" and "RH1 < RH2" and "RH2 \<le> 100"
  shows "calculateDewPoint T RH1 < calculateDewPoint T RH2"
proof -
  define c where "c = 17.62 * T / (243.12 + T)"
  have c: "c < 17.62" unfolding c_def using assms(1) by (rule magnus_offset_below_pole)
  have "ln (RH1 / 100) < ln (RH2 / 100)"
    using assms by (simp add: ln_less_cancel_iff)
  moreover have "ln (RH2 / 100) \<le> 0"
    using assms by (simp add: ln_le_zero_iff)
  ultimately have "ln (RH1 / 100) + c < ln (RH2 / 100) + c" and "ln (RH2 / 100) + c < 17.62"
    using c by simp_all
  then have "243.12 * (ln (RH1 / 100) + c) / (17.62 - (ln (RH1 / 100) + c))
           < 243.12 * (ln (RH2 / 100) + c) / (17.62 - (ln (RH2 / 100) + c))"
    by (rule magnus_fraction_mono)
  then show ?thesis
    by (simp add: calculateDewPoint_def calculateDewPointMagnus_def Let_def c_def)
qed

lemma ln_10_ge_2: "2 \<le> ln (10::real)"
proof -
  have "exp (2::real) = exp 1 * exp 1" by (simp add: exp_add [symmetric])
  also have "\<dots> \<le> 3 * 3" by (intro mult_mono exp_le) simp_all
  finally have "exp (2::real) \<le> 10" by simp
  then show ?thesis by (simp add: ln_ge_iff)
qed

lemma magnus_fraction_lower:
  fixes g :: real
  assumes "g < 17.62"
  shows "- 243.12 < 243.12 * g / (17.62 - g)"
proof -
  have d: "0 < 17.62 - g" using assms by simp
  have "243.12 * g / (17.62 - g) + 243.12 = 243.12 * 17.62 / (17.62 - g)"
    using d by (simp add: field_simps)
  moreover have "0 < 243.12 * 17.62 / (17.62 - g)"
    using d by simp
  ultimately show ?thesis by linarith
qed

lemma fraction_mono_above:
  fixes a b g1 g2 :: real
  assumes "0 < a" and "0 < b" and "b < g1" and "g1 < g2"
  shows "a * g1 / (b - g1) < a * g2 / (b - g2)"
proof -
  have d1: "b - g1 < 0" and d2: "b - g2 < 0" using assms by simp_all
  have "(a * b) * g1 < (a * b) * g2"
    using assms by (intro mult_strict_left_mono) simp_all
  then have "(a * g1) * (b - g2) < (a * g2) * (b - g1)"
    by (simp add: algebra_simps)
  then have "(a * g1) * (b - g2) / ((b - g1) * (b - g2))
           < (a * g2) * (b - g1) / ((b - g1) * (b - g2))"
    using d1 d2 by (intro divide_strict_right_mono mult_neg_neg)
  moreover have "(a * g1) * (b - g2) / ((b - g1) * (b - g2)) = a * g1 / (b - g1)"
    using d2 by simp
  moreover have "(a * g2) * (b - g1) / ((b - g1) * (b - g2)) = a * g2 / (b - g2)"
    using d1 by simp
  ultimately show ?thesis by simp
qed

lemma ln_10_le_4: "ln (10::real) \<le> 4"
proof -
  have "(2::real) \<le> exp 1" using exp_ge_add_one_self [of "1::real"] by simp
  then have "(2::real) ^ 4 \<le> exp 1 ^ 4" by (intro power_mono) simp_all
  also have "exp (1::real) ^ 4 = exp 4" by (simp add: exp_of_nat_mult [symmetric])
  finally have "(10::real) \<le> exp 4" by simp
  then have "ln (10::real) \<le> ln (exp 4)" by (subst ln_le_cancel_iff) simp_all
  then show ?thesis by simp
qed

lemma magnus_offset_above_pole:
  fixes T :: real
  assumes "- 273.15 \<le> T" and "T < - 243.12"
  shows "160 \<le> 17.62 * T / (243.12 + T)"
proof -
  have neg: "243.12 + T < 0" using assms by simp
  have "17.62 * T \<le> 160 * (243.12 + T)" using assms by simp
  then show ?thesis using neg by (simp add: neg_le_divide_eq)
qed

lemma ln_tiny_humidity:
  fixes RH :: real
  assumes "1 / 10 ^ 13 \<le> RH"
  shows "- 60 \<le> ln (RH / 100)"
proof -
  have pos: "0 < RH" using assms by (rule less_le_trans [rotated]) simp
  have "ln (inverse ((10::real) ^ 15)) = - ln ((10::real) ^ 15)" by (rule ln_inverse)
  also have "\<dots> = - (15 * ln 10)" by (simp only: ln_realpow of_nat_numeral)
  finally have "- 60 \<le> ln (inverse ((10::real) ^ 15))" using ln_10_le_4 by simp
  also have "inverse ((10::real) ^ 15) \<le> RH / 100" using assms by (simp add: field_simps)
  then have "ln (inverse ((10::real) ^ 15)) \<le> ln (RH / 100)"
    using pos by (subst ln_le_cancel_iff) simp_all
  finally show ?thesis .
qed

lemma calculateDewPoint_strict_mono_below_pole:
  assumes "- 273.15 \<le> T" and "T < - 243.12"
    and "1 / 10 ^ 13 \<le> RH1" and "RH1 < RH2"
  shows "calculateDewPoint T RH1 < calculateDewPoint T RH2"
proof -
  define c where "c = 17.62 * T / (243.12 + T)"
  have c: "160 \<le> c" unfolding c_def using assms(1,2) by (rule magnus_offset_above_pole)
  have pos: "0 < RH1" using assms(3) by (rule less_le_trans [rotated]) simp
  have "- 60 \<le> ln (RH1 / 100)" using assms(3) by (rule ln_tiny_humidity)
  then have lo: "17.62 < ln (RH1 / 100) + c" using c by simp
  have "ln (RH1 / 100) < ln (RH2 / 100)"
    using assms(4) pos by (simp add: ln_less_cancel_iff)
  then have "ln (RH1 / 100) + c < ln (RH2 / 100) + c" by simp
  with lo have "243.12 * (ln (RH1 / 100) + c) / (17.62 - (ln (RH1 / 100) + c))
           < 243.12 * (ln (RH2 / 100) + c) / (17.62 - (ln (RH2 / 100) + c))"
    by (intro fraction_mono_above) simp_all
  then show ?thesis
    by (simp add: calculateDewPoint_def calculateDewPointMagnus_def Let_def c_def)
qed

text \<open>
  Claim C9. For every fixed air temperature the dew point is strictly increasing in the
  relative humidity on \<open>0 < RH \<le> 100\<close>, and at \<open>RH = 100\<close> it is the air temperature up
  to a tolerance, here \<open>1 / 10 ^ 9\<close>. The first part covers every temperature above
  \<open>-243.12\<close>, where the Magnus quotient stays on one side of its pole over the whole
  humidity range. The second part reaches down to absolute zero, for the humidities from
  \<open>1 / 10 ^ 13\<close> upwards. At \<open>-243.12\<close> itself the source divides by zero and no statement
  is made. In the model the dew point at \<open>RH = 100\<close> coincides with the temperature; the
  tolerance is what the rounding of the program's arithmetic needs.
\<close>

theorem calculateDewPoint_increasing:
  "(- 243.12 < T \<and> 0 < RH1 \<and> RH1 < RH2 \<and> RH2 \<le> 100 \<longrightarrow>
      calculateDewPoint T RH1 < calculateDewPoint T RH2)
   \<and> (- 273.15 \<le> T \<and> T < - 243.12 \<and> 1 / 10 ^ 13 \<le> RH1 \<and> RH1 < RH2 \<and> RH2 \<le> 100 \<longrightarrow>
      calculateDewPoint T RH1 < calculateDewPoint T RH2)
   \<and> (- 273.15 \<le> T \<and> T \<noteq> - 243.12 \<longrightarrow> \<bar>calculateDewPoint T 100 - T\<bar> < 1 / 10 ^ 9)"
proof (intro conjI impI)
  assume "- 243.12 < T \<and> 0 < RH1 \<and> RH1 < RH2 \<and> RH2 \<le> 100"
  then show "calculateDewPoint T RH1 < calculateDewPoint T RH2"
    by (intro calculateDewPoint_strict_mono) simp_all
next
  assume "- 273.15 \<le> T \<and> T < - 243.12 \<and> 1 / 10 ^ 13 \<le> RH1 \<and> RH1 < RH2 \<and> RH2 \<le> 100"
  then show "calculateDewPoint T RH1 < calculateDewPoint T RH2"
    by (intro calculateDewPoint_strict_mono_below_pole) simp_all
next
  assume "- 273.15 \<le> T \<and> T \<noteq> - 243.12"
  then have "calculateDewPoint T 100 = T" by (intro calculateDewPoint_saturated) simp
  then show "\<bar>calculateDewPoint T 100 - T\<bar> < 1 / 10 ^ 9" by simp
qed

theorem calculateDewPoint_increasing_witness:
  "(- 243.12 :: real) < 25 \<and> (0::real) < 60 \<and> (60::real) < 100 \<and> (100::real) \<le> 100
   \<and> calculateDewPoint 25 60 < calculateDewPoint 25 100
   \<and> (- 273.15 :: real) \<le> - 250 \<and> (- 250 :: real) < - 243.12 \<and> (1 / 10 ^ 13 :: real) \<le> 1
   \<and> calculateDewPoint (- 250) 1 < calculateDewPoint (- 250) 100
   \<and> \<bar>calculateDewPoint 25 100 - 25\<bar> < 1 / 10 ^ 9"
  using calculateDewPoint_increasing [of 25 60 100]
        calculateDewPoint_increasing [of "- 250" 1 100]
  by simp

text \<open>
  The lower bound on the humidity in the second part has a reason: below \<open>-243.12\<close> a
  humidity that is small enough, far below anything measurable, puts the quotient on the
  other side of its pole.
\<close>

lemma calculateDewPoint_below_pole_tiny_humidity:
  "(0::real) < 1 / 10 ^ 98 \<and> (1 / 10 ^ 98 :: real) < 100
   \<and> calculateDewPoint (- 273) 100 < calculateDewPoint (- 273) (1 / 10 ^ 98)"
proof -
  have l: "ln ((1 / 10 ^ 98) / 100 :: real) = - (100 * ln 10)"
  proof -
    have "(1 / 10 ^ 98) / 100 = inverse ((10::real) ^ 100)" by simp
    then have "ln ((1 / 10 ^ 98) / 100 :: real) = ln (inverse ((10::real) ^ 100))" by simp
    also have "\<dots> = - ln ((10::real) ^ 100)" by (rule ln_inverse)
    also have "\<dots> = - (100 * ln 10)" by (simp only: ln_realpow of_nat_numeral)
    finally show ?thesis .
  qed
  define g where "g = ln ((1 / 10 ^ 98) / 100 :: real) + 17.62 * (- 273) / (243.12 + (- 273))"
  have "g \<le> - 200 + 17.62 * (- 273) / (243.12 + (- 273))"
    unfolding g_def l using ln_10_ge_2 by simp
  then have "g < 17.62" by simp
  then have "- 243.12 < 243.12 * g / (17.62 - g)" by (rule magnus_fraction_lower)
  moreover have "calculateDewPoint (- 273) (1 / 10 ^ 98) = 243.12 * g / (17.62 - g)"
    unfolding g_def by (simp only: calculateDewPoint_def calculateDewPointMagnus_def Let_def)
  moreover have "calculateDewPoint (- 273) 100 = - 273"
    by (rule calculateDewPoint_saturated) simp
  ultimately have "calculateDewPoint (- 273) 100 < calculateDewPoint (- 273) (1 / 10 ^ 98)"
    by simp
  then show ?thesis by simp
qed

section \<open>Condensation solver: the minimum thickness\<close>

lemma thicknessLoop_value:
  "snd (thicknessLoop ri lam h ta tm tg (real k / 10) n) =
     map_option (\<lambda>j. real j / 10)
       (find (\<lambda>j. tg \<le> surfaceTempAt ri lam h ta tm (real j / 10)) [k..<1001])"
proof (induction "1001 - k" arbitrary: k n)
  case 0
  then have "\<not> real k / 10 \<le> 100" by simp
  moreover from 0 have "[k..<1001] = []" by simp
  ultimately show ?case by (subst thicknessLoop.simps) simp
next
  case (Suc d)
  then have k: "k < 1001" and d: "d = 1001 - Suc k" by simp_all
  have le: "real k / 10 \<le> 100" using k by simp
  have nxt: "real k / 10 + 1 / 10 = real (Suc k) / 10" by simp
  have up: "[k..<1001] = k # [Suc k..<1001]" using k by (simp add: upt_conv_Cons)
  show ?case
    using Suc.hyps(1) [OF d, of "Suc n"] le
    by (subst thicknessLoop.simps) (simp add: up nxt del: thicknessLoop.simps)
qed

lemma thicknessLoop_exhausted_steps:
  assumes "\<And>j. k \<le> j \<Longrightarrow> j < 1001 \<Longrightarrow> \<not> tg \<le> surfaceTempAt ri lam h ta tm (real j / 10)"
  shows "thicknessLoop ri lam h ta tm tg (real k / 10) n = (n + (1001 - k), None)"
  using assms
proof (induction "1001 - k" arbitrary: k n)
  case 0
  then have "\<not> real k / 10 \<le> 100" by simp
  with 0 show ?case by (subst thicknessLoop.simps) simp
next
  case (Suc d)
  then have k: "k < 1001" and d: "d = 1001 - Suc k" by simp_all
  have le: "real k / 10 \<le> 100" using k by simp
  have nxt: "real k / 10 + 1 / 10 = real (Suc k) / 10" by simp
  have here: "\<not> tg \<le> surfaceTempAt ri lam h ta tm (real k / 10)"
    using Suc.prems k by simp
  have "thicknessLoop ri lam h ta tm tg (real (Suc k) / 10) (Suc n)
          = (Suc n + (1001 - Suc k), None)"
    using Suc.prems by (intro Suc.hyps(1) [OF d]) simp_all
  then show ?case
    using le here k by (subst thicknessLoop.simps) (simp add: nxt del: thicknessLoop.simps)
qed

lemma series_share:
  fixes A B L x :: real
  assumes "0 < A" and "0 < B" and "0 < L"
  shows "x / (L / A + 1 / B) * (L / A) = x * (B * L) / (B * L + A)"
proof -
  have s: "L / A + 1 / B = (B * L + A) / (A * B)"
    using assms by (simp add: field_simps)
  have p: "0 < B * L + A" using assms by (simp add: add_pos_pos)
  have "x / ((B * L + A) / (A * B)) * (L / A) = x * (B * L) / (B * L + A)"
    using assms p by (simp add: field_simps)
  then show ?thesis by (simp only: s)
qed

lemma surfaceTempAt_alt:
  assumes "0 < ri" and "0 < lam" and "0 < h" and "0 < t"
  shows "surfaceTempAt ri lam h ta tm t =
           ta + (tm - ta) * lam / (h * (ri + t / 1000) * ln ((ri + t / 1000) / ri) + lam)"
proof -
  define ro where "ro = ri + t / 1000"
  define L where "L = ln (ro / ri)"
  have ro: "0 < ro" and gt: "ri < ro" using assms by (simp_all add: ro_def)
  have L: "0 < L" unfolding L_def using assms gt by (simp add: ln_gt_zero)
  have den: "0 < h * ro * L + lam" using assms ro L by (simp add: add_pos_pos)
  have A: "0 < 2 * pi * lam" and B: "0 < h * 2 * pi * ro" using assms ro by simp_all
  have "surfaceTempAt ri lam h ta tm t
          = tm - (tm - ta) / (L / (2 * pi * lam) + 1 / (h * 2 * pi * ro)) * (L / (2 * pi * lam))"
    by (simp add: surfaceTempAt_def Let_def ro_def L_def)
  also have "\<dots> = tm - (tm - ta) * ((h * 2 * pi * ro) * L)
                        / ((h * 2 * pi * ro) * L + 2 * pi * lam)"
    by (simp only: series_share [OF A B L])
  also have "(tm - ta) * ((h * 2 * pi * ro) * L) / ((h * 2 * pi * ro) * L + 2 * pi * lam)
               = ((2 * pi) * ((tm - ta) * (h * ro * L))) / ((2 * pi) * (h * ro * L + lam))"
    by (simp add: algebra_simps)
  also have "\<dots> = (tm - ta) * (h * ro * L) / (h * ro * L + lam)"
    by (rule mult_divide_mult_cancel_left) simp
  also have "tm - (tm - ta) * (h * ro * L) / (h * ro * L + lam)
               = ta + (tm - ta) * lam / (h * ro * L + lam)"
    using den by (simp add: field_simps)
  finally show ?thesis by (simp add: ro_def L_def)
qed


lemma surfaceTempAt_below_ambient:
  assumes "0 < ri" and "0 < lam" and "0 < h" and "0 < t" and "tm < ta"
  shows "surfaceTempAt ri lam h ta tm t < ta"
proof -
  have "0 < ri + t / 1000" and "ri < ri + t / 1000" using assms by simp_all
  then have "0 < ln ((ri + t / 1000) / ri)" using assms by (simp add: ln_gt_zero)
  then have "0 < h * (ri + t / 1000) * ln ((ri + t / 1000) / ri) + lam"
    using assms by (intro add_pos_pos mult_pos_pos) simp_all
  then have "(tm - ta) * lam / (h * (ri + t / 1000) * ln ((ri + t / 1000) / ri) + lam) < 0"
    using assms by (intro divide_neg_pos mult_neg_pos) simp_all
  then show ?thesis using assms by (simp add: surfaceTempAt_alt)
qed

lemma thicknessLoop_steps_ge: "n \<le> fst (thicknessLoop ri lam h ta tm tg t n)"
proof (induction ri lam h ta tm tg t n rule: thicknessLoop.induct)
  case (1 ri lam h ta tm tg t n)
  show ?case
  proof (cases "t \<le> 100 \<and> \<not> tg \<le> surfaceTempAt ri lam h ta tm t")
    case True
    with 1 have "Suc n \<le> fst (thicknessLoop ri lam h ta tm tg (t + 0.1) (Suc n))" by simp
    with True show ?thesis by (subst thicknessLoop.simps) simp
  next
    case False
    then show ?thesis by (subst thicknessLoop.simps) auto
  qed
qed

lemma thicknessLoop_steps_pos:
  assumes "t \<le> 100"
  shows "n < fst (thicknessLoop ri lam h ta tm tg t n)"
proof (cases "tg \<le> surfaceTempAt ri lam h ta tm t")
  case True
  with assms show ?thesis by (subst thicknessLoop.simps) simp
next
  case False
  have "Suc n \<le> fst (thicknessLoop ri lam h ta tm tg (t + 0.1) (Suc n))"
    by (rule thicknessLoop_steps_ge)
  with False assms show ?thesis by (subst thicknessLoop.simps) simp
qed

text \<open>What a call that passes the four checks returns, and how many bodies it runs.\<close>

lemma calculateMinimumThickness_valid:
  assumes "0 < tubeDiameter" and "0 < h" and "dewPoint < ambientTemp"
    and "dewPoint + 0.4 \<le> ambientTemp"
    and "interpolateLambda (meanTemp ambientTemp mediumTemp) material = Inr lam"
  shows "calculateMinimumThickness tubeDiameter ambientTemp mediumTemp dewPoint material h =
     Inr (case find (\<lambda>j. dewPoint + 0.4
                  \<le> surfaceTempAt (tubeDiameter / 2 / 1000) lam h
                       ambientTemp mediumTemp (real j / 10)) [1..<1001] of
            Some j \<Rightarrow> real j / 10
          | None \<Rightarrow> 50)"
proof -
  have start: "(0.1::real) = real 1 / 10" by simp
  show ?thesis
    using assms thicknessLoop_value [of "tubeDiameter / 2 / 1000" lam h ambientTemp mediumTemp
        "dewPoint + 0.4" 1 0]
    unfolding calculateMinimumThickness_def calculateMinimumThicknessRun_def Let_def start
    by (auto split: prod.splits option.splits simp del: thicknessLoop.simps)
qed

lemma searchSteps_valid:
  assumes "0 < tubeDiameter" and "0 < h" and "dewPoint < ambientTemp"
    and "dewPoint + 0.4 \<le> ambientTemp"
    and "interpolateLambda (meanTemp ambientTemp mediumTemp) material = Inr lam"
  shows "0 < searchSteps tubeDiameter ambientTemp mediumTemp dewPoint material h"
proof -
  have "0 < fst (thicknessLoop (tubeDiameter / 2 / 1000) lam h ambientTemp mediumTemp
        (dewPoint + 0.4) 0.1 0)"
    by (rule thicknessLoop_steps_pos) simp
  then show ?thesis
    using assms
    unfolding searchSteps_def calculateMinimumThicknessRun_def Let_def
    by (auto split: prod.splits option.splits simp del: thicknessLoop.simps)
qed

lemma calculateMinimumThickness_pos:
  assumes "calculateMinimumThickness tubeDiameter ambientTemp mediumTemp dewPoint material h
             = Inr minThickness"
  shows "0 < minThickness"
proof -
  have v: "0 < tubeDiameter" "0 < h" "dewPoint < ambientTemp" "dewPoint + 0.4 \<le> ambientTemp"
    using assms
    unfolding calculateMinimumThickness_def calculateMinimumThicknessRun_def Let_def
    by (auto split: if_splits)
  obtain lam where lam: "interpolateLambda (meanTemp ambientTemp mediumTemp) material = Inr lam"
    using assms v
    unfolding calculateMinimumThickness_def calculateMinimumThicknessRun_def Let_def
    by (cases "interpolateLambda (meanTemp ambientTemp mediumTemp) material") auto
  show ?thesis
    using assms unfolding calculateMinimumThickness_valid [OF v lam]
    by (auto split: option.splits simp: find_Some_iff)
qed

text \<open>
  Claim C2. A call that passes the checks returns the first thickness of the scan
  0.1, 0.2, ... , 100 at which the surface temperature reaches the dew point plus 0.4
  (lemma \<open>calculateMinimumThickness_valid\<close>). When no thickness of the scan qualifies the
  claim promises the ceiling of the scan, which is 100. The call below passes the checks,
  runs all 1000 bodies of the loop up to the thickness 100 and returns 50.
\<close>

theorem calculateMinimumThickness_exhausted:
  "calculateMinimumThickness 25 25 (-5) 24.6 ''ROKAFLEX ST'' 9 = Inr 50
   \<and> searchSteps 25 25 (-5) 24.6 ''ROKAFLEX ST'' 9 = 1000"
proof -
  have never: "\<not> (24.6 + 0.4 \<le> surfaceTempAt (25 / 2 / 1000) 0.035 9 25 (-5) (real j / 10))"
    if "1 \<le> j" for j
  proof -
    have "surfaceTempAt (25 / 2 / 1000) 0.035 9 25 (-5) (real j / 10) < 25"
      using that by (intro surfaceTempAt_below_ambient) simp_all
    then show ?thesis by simp
  qed
  have lam: "interpolateLambda (meanTemp 25 (-5)) ''ROKAFLEX ST'' = Inr 0.035"
    by (simp add: meanTemp_def interpolateLambda_ROKAFLEX)
  have start: "(0.1::real) = real 1 / 10" by simp
  have run: "thicknessLoop (25 / 2 / 1000) 0.035 9 25 (-5) (24.6 + 0.4) (real 1 / 10) 0
               = (0 + (1001 - 1), None)"
    using never by (intro thicknessLoop_exhausted_steps) simp
  show ?thesis
    unfolding calculateMinimumThickness_def searchSteps_def calculateMinimumThicknessRun_def
      Let_def lam start
    using run by (simp del: thicknessLoop.simps)
qed

section \<open>Condensation solver: the checks before the search\<close>

lemma ln_lower: 
  fixes x :: real assumes "0 < x" shows "1 - 1 / x \<le> ln x"
proof -
  have "ln (1 / x) \<le> 1 / x - 1" using assms by (intro ln_le_minus_one) simp
  moreover have "ln (1 / x) = - ln x" using assms by (simp add: ln_div)
  ultimately show ?thesis by simp
qed

lemma fraction_mono_le:
  fixes a b g1 g2 :: real
  assumes "0 < a" and "0 < b" and "g1 \<le> g2" and "g2 < b"
  shows "a * g1 / (b - g1) \<le> a * g2 / (b - g2)"
proof (cases "g1 = g2")
  case True
  then show ?thesis by simp
next
  case False
  with assms have "g1 < g2" by simp
  with assms have "a * g1 / (b - g1) < a * g2 / (b - g2)" by (intro fraction_mono)
  then show ?thesis by simp
qed

lemma calculateDewPoint_upper:
  assumes "- 243.12 < T" and "0 < RH" and "RH \<le> 100"
  shows "calculateDewPoint T RH
           \<le> 243.12 * (RH / 100 - 1 + 17.62 * T / (243.12 + T))
               / (17.62 - (RH / 100 - 1 + 17.62 * T / (243.12 + T)))"
proof -
  define c where "c = 17.62 * T / (243.12 + T)"
  have c: "c < 17.62" unfolding c_def using assms(1) by (rule magnus_offset_below_pole)
  have "ln (RH / 100) \<le> RH / 100 - 1" using assms by (intro ln_le_minus_one) simp
  moreover have "RH / 100 - 1 \<le> 0" using assms by simp
  ultimately have "ln (RH / 100) + c \<le> RH / 100 - 1 + c" and "RH / 100 - 1 + c < 17.62"
    using c by simp_all
  then have "243.12 * (ln (RH / 100) + c) / (17.62 - (ln (RH / 100) + c))
           \<le> 243.12 * (RH / 100 - 1 + c) / (17.62 - (RH / 100 - 1 + c))"
    by (intro fraction_mono_le) simp_all
  then show ?thesis
    by (simp add: calculateDewPoint_def calculateDewPointMagnus_def Let_def c_def)
qed

lemma calculateDewPoint_lower:
  assumes "- 243.12 < T" and "0 < RH" and "RH \<le> 100"
  shows "243.12 * (1 - 100 / RH + 17.62 * T / (243.12 + T))
               / (17.62 - (1 - 100 / RH + 17.62 * T / (243.12 + T)))
           \<le> calculateDewPoint T RH"
proof -
  define c where "c = 17.62 * T / (243.12 + T)"
  have c: "c < 17.62" unfolding c_def using assms(1) by (rule magnus_offset_below_pole)
  have "1 - 1 / (RH / 100) \<le> ln (RH / 100)" using assms by (intro ln_lower) simp
  then have lo: "1 - 100 / RH \<le> ln (RH / 100)" by simp
  moreover have "ln (RH / 100) \<le> 0" using assms by (simp add: ln_le_zero_iff)
  ultimately have "1 - 100 / RH + c \<le> ln (RH / 100) + c" and "ln (RH / 100) + c < 17.62"
    using c by simp_all
  then have "243.12 * (1 - 100 / RH + c) / (17.62 - (1 - 100 / RH + c))
           \<le> 243.12 * (ln (RH / 100) + c) / (17.62 - (ln (RH / 100) + c))"
    by (intro fraction_mono_le) simp_all
  then show ?thesis
    by (simp add: calculateDewPoint_def calculateDewPointMagnus_def Let_def c_def)
qed

lemma scenarioD_dew_point: "calculateDewPoint 10 60 < 10 \<and> calculateDewPoint 10 60 + 0.4 \<le> 10"
proof -
  have "calculateDewPoint 10 60 \<le> 5"
    using calculateDewPoint_upper [of 10 60] by simp
  then show ?thesis by simp
qed

lemma dew_25_95: "24.1 \<le> calculateDewPoint 25 95 \<and> calculateDewPoint 25 95 \<le> 24.6"
  using calculateDewPoint_upper [of 25 95] calculateDewPoint_lower [of 25 95] by simp

lemma dew_25_60: "calculateDewPoint 25 60 \<le> 24.6"
  using calculateDewPoint_upper [of 25 60] by simp

lemma scenarioD_search_runs:
  assumes "0 < tubeDiameter" and "0 < h" and "material \<notin> set objectPrototypeProperties"
  shows "calculateMinimumThickness tubeDiameter 10 mediumTemp (calculateDewPoint 10 60)
             material h \<noteq> Inl InvalidHumidity
       \<and> 0 < searchSteps tubeDiameter 10 mediumTemp (calculateDewPoint 10 60) material h"
proof -
  have d: "calculateDewPoint 10 60 < 10" "calculateDewPoint 10 60 + 0.4 \<le> 10"
    using scenarioD_dew_point by simp_all
  obtain lam where lam: "interpolateLambda (meanTemp 10 mediumTemp) material = Inr lam"
    using interpolateLambda_total [OF assms(3)] by blast
  show ?thesis
    using calculateMinimumThickness_valid [OF assms(1,2) d lam]
      searchSteps_valid [OF assms(1,2) d lam]
    by simp
qed

text \<open>
  Claim C4, as amended. With a positive diameter and a positive coefficient,
  \<open>calculateMinimumThickness\<close> raises InvalidHumidity whenever the dew point is at or
  above the ambient temperature, and UnreachableTarget whenever the dew point is below
  the ambient temperature and the dew point plus 0.4 is above it. A non-positive
  diameter is reported first, as InvalidGeometry, and then a non-positive coefficient,
  as InvalidCoefficient. Whenever the dew point plus 0.4 is above the ambient
  temperature the call ends in an error, and a call that ends in an error has executed
  no step of the search. The inputs of Scenario D, a humidity of 60 at an ambient
  temperature of 10, have a dew point below 10.
\<close>

theorem calculateMinimumThickness_preconditions:
  "(0 < tubeDiameter \<and> 0 < h \<and> ambientTemp \<le> dewPoint \<longrightarrow>
      calculateMinimumThickness tubeDiameter ambientTemp mediumTemp dewPoint material h
        = Inl InvalidHumidity)
   \<and> (0 < tubeDiameter \<and> 0 < h \<and> dewPoint < ambientTemp \<and> ambientTemp < dewPoint + 0.4 \<longrightarrow>
      calculateMinimumThickness tubeDiameter ambientTemp mediumTemp dewPoint material h
        = Inl UnreachableTarget)
   \<and> (tubeDiameter \<le> 0 \<longrightarrow>
      calculateMinimumThickness tubeDiameter ambientTemp mediumTemp dewPoint material h
        = Inl InvalidGeometry)
   \<and> (0 < tubeDiameter \<and> h \<le> 0 \<longrightarrow>
      calculateMinimumThickness tubeDiameter ambientTemp mediumTemp dewPoint material h
        = Inl InvalidCoefficient)
   \<and> (ambientTemp < dewPoint + 0.4 \<longrightarrow>
      isl (calculateMinimumThickness tubeDiameter ambientTemp mediumTemp dewPoint material h))
   \<and> (isl (calculateMinimumThickness tubeDiameter ambientTemp mediumTemp dewPoint material h)
       \<longrightarrow> searchSteps tubeDiameter ambientTemp mediumTemp dewPoint material h = 0)
   \<and> calculateDewPoint 10 60 < 10"
  using scenarioD_dew_point
  unfolding calculateMinimumThickness_def searchSteps_def calculateMinimumThicknessRun_def Let_def
  by (auto split: prod.splits option.splits sum.splits simp del: thicknessLoop.simps)

theorem calculateMinimumThickness_preconditions_witness:
  "calculateMinimumThickness 25 25 (-5) 30 ''ROKAFLEX ST'' 9 = Inl InvalidHumidity
   \<and> searchSteps 25 25 (-5) 30 ''ROKAFLEX ST'' 9 = 0
   \<and> calculateMinimumThickness 25 25 (-5) 24.8 ''ROKAFLEX ST'' 9 = Inl UnreachableTarget
   \<and> searchSteps 25 25 (-5) 24.8 ''ROKAFLEX ST'' 9 = 0
   \<and> calculateMinimumThickness 0 25 (-5) 30 ''ROKAFLEX ST'' 9 = Inl InvalidGeometry
   \<and> calculateMinimumThickness 25 25 (-5) 30 ''ROKAFLEX ST'' 0 = Inl InvalidCoefficient"
  using calculateMinimumThickness_preconditions [of 25 9 25 30 "-5" "''ROKAFLEX ST''"]
        calculateMinimumThickness_preconditions [of 25 9 25 "24.8" "-5" "''ROKAFLEX ST''"]
        calculateMinimumThickness_preconditions [of 0 9 25 30 "-5" "''ROKAFLEX ST''"]
        calculateMinimumThickness_preconditions [of 25 0 25 30 "-5" "''ROKAFLEX ST''"]
  by simp

text \<open>
  Counterexample to claim C4 as stated. The checks run in a fixed order: with a diameter
  of 0 a dew point above the ambient temperature is answered by InvalidGeometry, and a
  dew point of 30 at an ambient temperature of 25 (so that the dew point plus 0.4 is
  above it) is answered by InvalidHumidity, not by UnreachableTarget. With the inputs of
  Scenario D the dew point is below 10, InvalidHumidity is not raised and the search
  runs.
\<close>

theorem calculateMinimumThickness_preconditions_counterexample:
  "(25::real) \<le> 30
   \<and> calculateMinimumThickness 0 25 (-5) 30 ''ROKAFLEX ST'' 9 \<noteq> Inl InvalidHumidity
   \<and> (25::real) < 30 + 0.4
   \<and> calculateMinimumThickness 25 25 (-5) 30 ''ROKAFLEX ST'' 9 \<noteq> Inl UnreachableTarget
   \<and> calculateDewPoint 10 60 < 10
   \<and> calculateMinimumThickness 25 10 (-5) (calculateDewPoint 10 60) ''ROKAFLEX ST'' 9
        \<noteq> Inl InvalidHumidity
   \<and> 0 < searchSteps 25 10 (-5) (calculateDewPoint 10 60) ''ROKAFLEX ST'' 9"
proof -
  have "calculateMinimumThickness 0 25 (-5) 30 ''ROKAFLEX ST'' 9 \<noteq> Inl InvalidHumidity"
    and "calculateMinimumThickness 25 25 (-5) 30 ''ROKAFLEX ST'' 9 \<noteq> Inl UnreachableTarget"
    by (simp_all add: calculateMinimumThickness_def calculateMinimumThicknessRun_def)
  moreover have "calculateMinimumThickness 25 10 (-5) (calculateDewPoint 10 60)
                   ''ROKAFLEX ST'' 9 \<noteq> Inl InvalidHumidity
       \<and> 0 < searchSteps 25 10 (-5) (calculateDewPoint 10 60) ''ROKAFLEX ST'' 9"
    by (rule scenarioD_search_runs) (simp_all add: objectPrototypeProperties_def)
  ultimately show ?thesis using scenarioD_dew_point by simp
qed

section \<open>Condensation solver: the nominal thickness\<close>

lemma availableThicknesses_cases:
  "availableThicknesses d \<in>
     {[6, 9, 13], [6, 9, 13, 19, 25], [6, 9, 13, 19, 25, 32], [9, 13, 19, 25, 32], []}"
  by (simp add: availableThicknesses_def ALL_TUBE_SIZES_def)

lemma availableThicknesses_unlisted:
  assumes "\<forall>tube \<in> set ALL_TUBE_SIZES. mm tube \<noteq> d"
  shows "availableThicknesses d = [6, 9, 13, 19, 25, 32]"
proof -
  have "find (\<lambda>tube. mm tube = d) ALL_TUBE_SIZES = None"
    using assms by (simp add: find_None_iff)
  then show ?thesis by (simp add: availableThicknesses_def)
qed

lemma availableThicknesses_listed:
  assumes "find (\<lambda>tube. mm tube = d) ALL_TUBE_SIZES = Some tube"
  shows "availableThicknesses d = sort (map fst (wallThicknesses tube))"
  using assms by (simp add: availableThicknesses_def)

lemma availableThicknesses_wellformed:
  "sorted (availableThicknesses d)
   \<and> (\<forall>t \<in> set (availableThicknesses d). t \<noteq> 0 \<and> t \<in> \<int>)"
  using availableThicknesses_cases [of d] by auto

lemma find_first_sorted:
  fixes xs :: "real list"
  assumes "sorted xs" and "find (\<lambda>t. x \<le> t) xs = Some t"
  shows "t \<in> set xs \<and> x \<le> t \<and> (\<forall>u \<in> set xs. x \<le> u \<longrightarrow> t \<le> u)"
  using assms
proof (induction xs)
  case Nil
  then show ?case by simp
next
  case (Cons a xs)
  show ?case
  proof (cases "x \<le> a")
    case True
    with Cons.prems show ?thesis by auto
  next
    case False
    with Cons.prems have "find (\<lambda>t. x \<le> t) xs = Some t" and "sorted xs" by simp_all
    with Cons.IH have "t \<in> set xs \<and> x \<le> t \<and> (\<forall>u \<in> set xs. x \<le> u \<longrightarrow> t \<le> u)" by simp
    with False show ?thesis by auto
  qed
qed

lemma sorted_le_last:
  fixes xs :: "real list"
  assumes "sorted xs" and "u \<in> set xs"
  shows "u \<le> last xs"
  using assms
proof (induction xs)
  case Nil
  then show ?case by simp
next
  case (Cons a xs)
  show ?case
  proof (cases "xs = []")
    case True
    with Cons.prems show ?thesis by simp
  next
    case False
    then have "last xs \<in> set xs" by simp
    with Cons False show ?thesis by auto
  qed
qed

lemma ceiling_le_integer:
  fixes x u :: real
  assumes "u \<in> \<int>"
  shows "real_of_int \<lceil>x\<rceil> \<le> u \<longleftrightarrow> x \<le> u"
proof -
  from assms obtain n :: int where u: "u = of_int n" by (auto elim: Ints_cases)
  show ?thesis unfolding u by (simp add: ceiling_le_iff)
qed

lemma recommendedThicknessOf_sorted:
  assumes "sorted xs" and "xs \<noteq> []" and "\<forall>t \<in> set xs. t \<noteq> 0 \<and> t \<in> \<int>"
  shows "\<exists>t. recommendedThicknessOf xs (real_of_int \<lceil>x\<rceil>) = Some t \<and> t \<in> set xs
            \<and> ((\<exists>u \<in> set xs. x \<le> u) \<longrightarrow> x \<le> t \<and> (\<forall>u \<in> set xs. x \<le> u \<longrightarrow> t \<le> u))
            \<and> (\<not> (\<exists>u \<in> set xs. x \<le> u) \<longrightarrow> t = last xs \<and> (\<forall>u \<in> set xs. u \<le> t))"
proof (cases "find (\<lambda>t. real_of_int \<lceil>x\<rceil> \<le> t) xs")
  case None
  then have no: "\<not> (\<exists>u \<in> set xs. x \<le> u)"
    using assms(3) by (auto simp: find_None_iff ceiling_le_integer)
  have "recommendedThicknessOf xs (real_of_int \<lceil>x\<rceil>) = Some (last xs)"
    using None assms(2) by (simp add: recommendedThicknessOf_def lastElement_def)
  moreover have "last xs \<in> set xs" using assms(2) by simp
  moreover have "\<forall>u \<in> set xs. u \<le> last xs" using assms(1) by (auto intro: sorted_le_last)
  ultimately show ?thesis using no by simp
next
  case (Some t)
  from find_first_sorted [OF assms(1) Some]
  have t: "t \<in> set xs" "real_of_int \<lceil>x\<rceil> \<le> t"
    and least: "\<forall>u \<in> set xs. real_of_int \<lceil>x\<rceil> \<le> u \<longrightarrow> t \<le> u" by simp_all
  have "t \<noteq> 0" using t assms(3) by simp
  then have "recommendedThicknessOf xs (real_of_int \<lceil>x\<rceil>) = Some t"
    using Some by (simp add: recommendedThicknessOf_def)
  moreover have "x \<le> t" using t assms(3) by (simp add: ceiling_le_integer)
  moreover have "\<forall>u \<in> set xs. x \<le> u \<longrightarrow> t \<le> u"
    using least assms(3) by (simp add: ceiling_le_integer)
  ultimately show ?thesis using t by auto
qed

lemma calculateCondensation_Updated:
  assumes "calculateCondensation ambientTemp mediumTemp tubeDiameter material h relativeHumidity
             = Updated r"
  shows "calculateMinimumThickness tubeDiameter ambientTemp mediumTemp
             (calculateDewPoint ambientTemp relativeHumidity) material h
           = Inr (minimumThickness r)
       \<and> dewpointTemperature r = calculateDewPoint ambientTemp relativeHumidity
       \<and> recommendedThickness r
           = recommendedThicknessOf (availableThicknesses tubeDiameter)
               (real_of_int \<lceil>minimumThickness r * 1.2\<rceil>)"
  using assms
  unfolding calculateCondensation_def Let_def
  by (auto split: if_splits sum.splits)

lemma calculateCondensation_valid:
  assumes "0 < relativeHumidity" and "relativeHumidity \<le> 100" and "0 < h"
    and "0 < tubeDiameter"
    and "calculateDewPoint ambientTemp relativeHumidity + 0.4 \<le> ambientTemp"
    and "material \<notin> set objectPrototypeProperties"
  shows "is_Updated (calculateCondensation ambientTemp mediumTemp tubeDiameter material h
            relativeHumidity)"
proof -
  have "calculateDewPoint ambientTemp relativeHumidity < ambientTemp" using assms(5) by simp
  moreover obtain lam
    where "interpolateLambda (meanTemp ambientTemp mediumTemp) material = Inr lam"
    using interpolateLambda_total [OF assms(6)] by blast
  ultimately have "calculateMinimumThickness tubeDiameter ambientTemp mediumTemp
     (calculateDewPoint ambientTemp relativeHumidity) material h =
     Inr (case find (\<lambda>j. calculateDewPoint ambientTemp relativeHumidity + 0.4
                  \<le> surfaceTempAt (tubeDiameter / 2 / 1000) lam h
                       ambientTemp mediumTemp (real j / 10)) [1..<1001] of
            Some j \<Rightarrow> real j / 10
          | None \<Rightarrow> 50)"
    using assms(3,4,5) by (intro calculateMinimumThickness_valid)
  then show ?thesis
    using assms(1-3) unfolding calculateCondensation_def Let_def by simp
qed

lemma surface_bound_tube6:
  assumes "0 < t" and "t \<le> 13"
  shows "surfaceTempAt (6 / 2 / 1000) 0.035 9 25 (-5) t < 24.5"
proof -
  define ro :: real where "ro = 6 / 2 / 1000 + t / 1000"
  define L where "L = ln (ro / (6 / 2 / 1000))"
  have ro: "0 < ro" "ro \<le> 0.016" using assms by (simp_all add: ro_def)
  have "L \<le> ro / (6 / 2 / 1000) - 1"
    unfolding L_def using ro by (intro ln_le_minus_one) simp
  also have "\<dots> = t / 3" by (simp add: ro_def field_simps)
  finally have Lu: "L \<le> 13 / 3" using assms by simp
  have "1 < ro / (6 / 2 / 1000)" using assms by (simp add: ro_def)
  then have L0: "0 < L" unfolding L_def by (rule ln_gt_zero)
  have "ro * L \<le> 0.016 * (13 / 3)"
    using ro Lu L0 by (intro mult_mono) simp_all
  then have D: "9 * ro * L + 0.035 \<le> 0.659" by (simp add: mult.commute mult.left_commute)
  have D0: "0 < 9 * ro * L + 0.035" using ro L0 by (intro add_pos_pos mult_pos_pos) simp_all
  have "1.05 / 0.659 \<le> 1.05 / (9 * ro * L + 0.035)"
    using D D0 by (intro divide_left_mono mult_pos_pos) simp_all
  then have big: "0.5 < 1.05 / (9 * ro * L + 0.035)" by simp
  have "surfaceTempAt (6 / 2 / 1000) 0.035 9 25 (-5) t
          = 25 + (- 5 - 25) * 0.035 / (9 * ro * L + 0.035)"
    using assms unfolding ro_def L_def by (subst surfaceTempAt_alt) simp_all
  also have "\<dots> = 25 - 1.05 / (9 * ro * L + 0.035)" by simp
  finally show ?thesis using big by simp
qed

text \<open>
  The steel tubes of 10.2, 13.5 and 17.2 mm are listed with an empty stock table. The
  test \<^verbatim>\<open>selectedTube && selectedTube.wallThicknesses\<close> accepts the empty table, the
  ladder is empty and the recommendation is \<^verbatim>\<open>undefined\<close>.
\<close>

lemma availableThicknesses_empty_table:
  "availableThicknesses 10.2 = [] \<and> recommendedThicknessOf [] x = None"
  by (simp add: availableThicknesses_def ALL_TUBE_SIZES_def recommendedThicknessOf_def
        lastElement_def)

text \<open>
  Claim C3, as amended. For every condensation calculation that produces a result and
  whose ladder is not empty (the sorted stock thicknesses of the first tube with the
  diameter, or the default ladder 6, 9, 13, 19, 25, 32 when no tube has the diameter),
  the recommended thickness is a member of the ladder. When some member is at least 1.2
  times the minimum thickness, it is the smallest such member, and it is then at least
  the minimum thickness; when no member is, it is the largest member of the ladder.
\<close>

theorem recommendedThickness_on_ladder:
  assumes "calculateCondensation ambientTemp mediumTemp tubeDiameter material h relativeHumidity
             = Updated r"
    and "availableThicknesses tubeDiameter \<noteq> []"
  shows "(\<exists>t. recommendedThickness r = Some t
           \<and> t \<in> set (availableThicknesses tubeDiameter)
           \<and> ((\<exists>u \<in> set (availableThicknesses tubeDiameter). 1.2 * minimumThickness r \<le> u) \<longrightarrow>
                1.2 * minimumThickness r \<le> t \<and> minimumThickness r \<le> t
                \<and> (\<forall>u \<in> set (availableThicknesses tubeDiameter).
                      1.2 * minimumThickness r \<le> u \<longrightarrow> t \<le> u))
           \<and> (\<not> (\<exists>u \<in> set (availableThicknesses tubeDiameter). 1.2 * minimumThickness r \<le> u) \<longrightarrow>
                t = last (availableThicknesses tubeDiameter)
                \<and> (\<forall>u \<in> set (availableThicknesses tubeDiameter). u \<le> t)))
       \<and> ((\<forall>tube \<in> set ALL_TUBE_SIZES. mm tube \<noteq> tubeDiameter) \<longrightarrow>
            availableThicknesses tubeDiameter = [6, 9, 13, 19, 25, 32])
       \<and> (\<forall>tube. find (\<lambda>tube. mm tube = tubeDiameter) ALL_TUBE_SIZES = Some tube \<longrightarrow>
            availableThicknesses tubeDiameter = sort (map fst (wallThicknesses tube)))"
proof -
  note u = calculateCondensation_Updated [OF assms(1)]
  have pos: "0 < minimumThickness r"
    using u by (intro calculateMinimumThickness_pos [of tubeDiameter ambientTemp mediumTemp
          "calculateDewPoint ambientTemp relativeHumidity" material h]) simp
  have wf: "sorted (availableThicknesses tubeDiameter)"
    "\<forall>t \<in> set (availableThicknesses tubeDiameter). t \<noteq> 0 \<and> t \<in> \<int>"
    using availableThicknesses_wellformed [of tubeDiameter] by simp_all
  from recommendedThicknessOf_sorted [OF wf(1) assms(2) wf(2), of "minimumThickness r * 1.2"]
  obtain t where t: "recommendedThicknessOf (availableThicknesses tubeDiameter)
        (real_of_int \<lceil>minimumThickness r * 1.2\<rceil>) = Some t"
      "t \<in> set (availableThicknesses tubeDiameter)"
      "(\<exists>u \<in> set (availableThicknesses tubeDiameter). minimumThickness r * 1.2 \<le> u) \<longrightarrow>
         minimumThickness r * 1.2 \<le> t
         \<and> (\<forall>u \<in> set (availableThicknesses tubeDiameter). minimumThickness r * 1.2 \<le> u \<longrightarrow> t \<le> u)"
      "\<not> (\<exists>u \<in> set (availableThicknesses tubeDiameter). minimumThickness r * 1.2 \<le> u) \<longrightarrow>
         t = last (availableThicknesses tubeDiameter)
         \<and> (\<forall>u \<in> set (availableThicknesses tubeDiameter). u \<le> t)"
    by blast
  have comm: "1.2 * minimumThickness r = minimumThickness r * 1.2" by simp
  have "minimumThickness r * 1.2 \<le> t \<Longrightarrow> minimumThickness r \<le> t"
    using pos by simp
  with t u have "\<exists>t. recommendedThickness r = Some t
           \<and> t \<in> set (availableThicknesses tubeDiameter)
           \<and> ((\<exists>u \<in> set (availableThicknesses tubeDiameter). 1.2 * minimumThickness r \<le> u) \<longrightarrow>
                1.2 * minimumThickness r \<le> t \<and> minimumThickness r \<le> t
                \<and> (\<forall>u \<in> set (availableThicknesses tubeDiameter).
                      1.2 * minimumThickness r \<le> u \<longrightarrow> t \<le> u))
           \<and> (\<not> (\<exists>u \<in> set (availableThicknesses tubeDiameter). 1.2 * minimumThickness r \<le> u) \<longrightarrow>
                t = last (availableThicknesses tubeDiameter)
                \<and> (\<forall>u \<in> set (availableThicknesses tubeDiameter). u \<le> t))"
    unfolding comm by (intro exI [of _ t]) auto
  then show ?thesis
    using availableThicknesses_unlisted [of tubeDiameter]
      availableThicknesses_listed [of tubeDiameter]
    by blast
qed

theorem recommendedThickness_on_ladder_witness:
  "availableThicknesses 25 \<noteq> []
   \<and> is_Updated (calculateCondensation 25 (-5) 25 ''ROKAFLEX ST'' 9 60)
   \<and> (\<exists>t. recommendedThickness (results (calculateCondensation 25 (-5) 25 ''ROKAFLEX ST'' 9 60))
             = Some t
          \<and> t \<in> set (availableThicknesses 25))"
proof -
  have ne: "availableThicknesses 25 \<noteq> []"
    by (simp add: availableThicknesses_def ALL_TUBE_SIZES_def)
  have "calculateDewPoint 25 60 + 0.4 \<le> 25" using dew_25_60 by simp
  then have upd: "is_Updated (calculateCondensation 25 (-5) 25 ''ROKAFLEX ST'' 9 60)"
    by (intro calculateCondensation_valid) (simp_all add: objectPrototypeProperties_def)
  then have "calculateCondensation 25 (-5) 25 ''ROKAFLEX ST'' 9 60
               = Updated (results (calculateCondensation 25 (-5) 25 ''ROKAFLEX ST'' 9 60))"
    by simp
  from recommendedThickness_on_ladder [OF this ne] ne upd show ?thesis by blast
qed

text \<open>
  Counterexample to claim C3 as stated. The claim promises a recommendation at or above
  the minimum thickness in every case. With the 6 mm copper tube, whose ladder ends at 13, an ambient temperature
  of 25, a medium temperature of -5, \<open>h = 9\<close> and a humidity of 95 the minimum thickness
  is above 13 and the recommendation is the largest member 13.
\<close>

theorem recommendedThickness_below_minimum:
  "is_Updated (calculateCondensation 25 (-5) 6 ''ROKAFLEX ST'' 9 95)
   \<and> availableThicknesses 6 = [6, 9, 13]
   \<and> recommendedThickness (results (calculateCondensation 25 (-5) 6 ''ROKAFLEX ST'' 9 95))
        = Some 13
   \<and> 13 < minimumThickness (results (calculateCondensation 25 (-5) 6 ''ROKAFLEX ST'' 9 95))"
proof -
  define out where "out = calculateCondensation 25 (-5) 6 ''ROKAFLEX ST'' 9 95"
  define dp where "dp = calculateDewPoint 25 95"
  have dp: "24.1 \<le> dp" "dp + 0.4 \<le> 25" "dp < 25" using dew_25_95 by (simp_all add: dp_def)
  have av: "availableThicknesses 6 = [6, 9, 13]"
    by (simp add: availableThicknesses_def ALL_TUBE_SIZES_def)
  have upd: "is_Updated out"
    unfolding out_def using dp(2)
    by (intro calculateCondensation_valid) (simp_all add: dp_def objectPrototypeProperties_def)
  then have "out = Updated (results out)" by simp
  note u = calculateCondensation_Updated [OF this [unfolded out_def], folded out_def dp_def]
  have lam: "interpolateLambda (meanTemp 25 (-5)) ''ROKAFLEX ST'' = Inr 0.035"
    by (simp add: meanTemp_def interpolateLambda_ROKAFLEX)
  have fails: "\<not> dp + 0.4 \<le> surfaceTempAt (6 / 2 / 1000) 0.035 9 25 (-5) (real j / 10)"
    if "1 \<le> j" and "j \<le> 130" for j
  proof -
    have "surfaceTempAt (6 / 2 / 1000) 0.035 9 25 (-5) (real j / 10) < 24.5"
      using that by (intro surface_bound_tube6) simp_all
    with dp(1) show ?thesis by simp
  qed
  have "calculateMinimumThickness 6 25 (-5) dp ''ROKAFLEX ST'' 9 = Inr (minimumThickness (results out))"
    using u by simp
  then have mt: "minimumThickness (results out) =
      (case find (\<lambda>j. dp + 0.4 \<le> surfaceTempAt (6 / 2 / 1000) 0.035 9 25 (-5) (real j / 10))
              [1..<1001] of
         Some j \<Rightarrow> real j / 10 | None \<Rightarrow> 50)"
    using dp by (subst (asm) calculateMinimumThickness_valid [OF _ _ _ _ lam]) simp_all
  have big: "13 < minimumThickness (results out)"
  proof (cases "find (\<lambda>j. dp + 0.4 \<le> surfaceTempAt (6 / 2 / 1000) 0.035 9 25 (-5) (real j / 10))
              [1..<1001]")
    case None
    then show ?thesis by (simp add: mt)
  next
    case (Some j)
    then have hit: "dp + 0.4 \<le> surfaceTempAt (6 / 2 / 1000) 0.035 9 25 (-5) (real j / 10)"
      and j: "1 \<le> j"
      by (auto simp: find_Some_iff)
    have "\<not> j \<le> 130"
    proof
      assume "j \<le> 130"
      from fails [OF j this] hit show False by (rule notE)
    qed
    then have "13 < real j / 10" by simp
    with Some show ?thesis by (simp add: mt)
  qed
  then have "13 < minimumThickness (results out) * 1.2" by simp
  then have "13 < real_of_int \<lceil>minimumThickness (results out) * 1.2\<rceil>"
    by (meson le_of_int_ceiling less_le_trans)
  then have "recommendedThicknessOf [6, 9, 13]
               (real_of_int \<lceil>minimumThickness (results out) * 1.2\<rceil>) = Some 13"
    by (simp add: recommendedThicknessOf_def lastElement_def)
  with u av have "recommendedThickness (results out) = Some 13" by simp
  with upd av big show ?thesis unfolding out_def by simp
qed

end
